theory Spec2Isabelle
  imports Main
begin

section \<open>Data model of the login flow\<close>

text \<open>
  The development embeds two source functions:
  \<^item> \<^verbatim>\<open>handleGoogleCallback\<close> of \<^verbatim>\<open>src/components/auth/loginModal.tsx\<close>, the
    credential callback (together with the script-loading effect of the same component);
  \<^item> \<^verbatim>\<open>loadGoogleOAuthScript\<close> of \<^verbatim>\<open>src/utils/googleOAuth.ts\<close>.

  The callback is an \<^verbatim>\<open>async\<close> function with two \<^verbatim>\<open>await\<close>s. It is cut at the awaits
  into three synchronous pieces; what each one does to the world (redux store, cookie jar,
  axios token, notifications) is explicit state passing, and every observable effect is
  also appended to a chronological event log. Console output is not modelled.
\<close>

subsection \<open>Values thrown and caught\<close>

text \<open>
  \<^verbatim>\<open>JsError m\<close> is \<^verbatim>\<open>new Error(m)\<close> thrown by the component itself; \<^verbatim>\<open>ApiError m\<close> is
  whatever a rejected collaborator promise carries, with its surfaced text \<^verbatim>\<open>m\<close>.
\<close>

datatype thrown = JsError string | ApiError string

subsection \<open>Collaborator responses (types/auth.type.ts)\<close>

text \<open>
  The TypeScript types promise \<^verbatim>\<open>data\<close>, \<^verbatim>\<open>accessToken\<close> and \<^verbatim>\<open>refreshToken\<close>, but the
  callback tests each of them for truthiness at run time, so each may be absent
  (\<open>None\<close> for \<^verbatim>\<open>undefined\<close>/\<^verbatim>\<open>null\<close>).
\<close>

record token_data =
  accessToken :: "string option"
  refreshToken :: "string option"

record login_response =
  statusCode :: int
  message :: string
  data :: "token_data option"

record user_details =
  ud_id :: int
  ud_email :: string
  ud_username :: string
  ud_confirmed :: bool
  ud_role :: "int option"

type_synonym exchange_outcome = "thrown + login_response option"
type_synonym profile_outcome = "thrown + user_details option"

subsection \<open>Redux auth slice\<close>

datatype auth_status = Idle | Authenticating | Authenticated | Failed

record user_profile =
  user_id :: int
  email :: string
  username :: string
  confirmed :: bool
  role_id :: "int option"

record auth_state =
  status :: auth_status
  user :: "user_profile option"
  error :: "string option"

datatype auth_action = LoginStart | LoginSuccess user_profile | LoginFailure string

text \<open>
  Modelled from the spec: the reducers \<^verbatim>\<open>loginStart\<close>, \<^verbatim>\<open>loginSuccess\<close> and
  \<^verbatim>\<open>loginFailure\<close> of \<^verbatim>\<open>redux/slices/authSlice\<close> are imported by the component but are
  not among the sources. Section 3 of the specification fixes what they publish: the
  status is one of idle, authenticating, authenticated, failed; authenticated goes with a
  user; failed implies no user and carries the failure reason; the error is cleared by
  the next authentication attempt.
\<close>

fun authReducer :: "auth_state \<Rightarrow> auth_action \<Rightarrow> auth_state" where
  "authReducer s LoginStart = \<lparr>status = Authenticating, user = None, error = None\<rparr>"
| "authReducer s (LoginSuccess u) = \<lparr>status = Authenticated, user = Some u, error = None\<rparr>"
| "authReducer s (LoginFailure m) = \<lparr>status = Failed, user = None, error = Some m\<rparr>"

definition initialAuth :: auth_state where
  "initialAuth = \<lparr>status = Idle, user = None, error = None\<rparr>"

subsection \<open>Cookie jar\<close>

datatype same_site = Strict | Lax | NoRestriction

record cookie =
  cvalue :: string
  path :: string
  expires :: nat
  sameSite :: same_site
  secure :: bool

subsection \<open>Observable effects\<close>

datatype event =
    Dispatch auth_action
  | CallExchange string
  | CookieSet string cookie
  | SetToken string
  | CallGetMe
  | MessageSuccess string nat
  | MessageError string nat
  | OnSuccess
  | SetTimeout nat

record sys_state =
  auth :: auth_state
  cookies :: "string \<Rightarrow> cookie option"
  axios_token :: "string option"
  isGoogleLoaded :: bool
  events :: "event list"

text \<open>
  The optional \<^verbatim>\<open>onSuccess\<close> prop: not given, or a function that returns or throws when it
  is called.
\<close>

datatype observer = NoObserver | ObserverReturns | ObserverThrows thrown

text \<open>
  What the component receives from outside: its props \<^verbatim>\<open>t\<close> and \<^verbatim>\<open>onSuccess\<close>,
  \<^verbatim>\<open>window.location.protocol\<close>, and \<^verbatim>\<open>getErrorMessage\<close> of \<^verbatim>\<open>utils/apiHandler\<close>, which is
  not among the sources and is therefore a parameter. The two props are functions of the
  caller: a lookup \<^verbatim>\<open>t(key)\<close> returns a text or throws, and so may \<^verbatim>\<open>onSuccess()\<close>. The
  library calls (\<^verbatim>\<open>dispatch\<close>, \<^verbatim>\<open>Cookies.set\<close>, \<^verbatim>\<open>message.*\<close>, \<^verbatim>\<open>setTimeout\<close>) and
  \<^verbatim>\<open>authApi.setToken\<close> are taken to return.
\<close>

record env =
  getErrorMessage :: "thrown \<Rightarrow> string"
  translate :: "string \<Rightarrow> thrown + string"
  onSuccess :: observer
  protocol :: string

text \<open>The two network collaborators of one run: \<^verbatim>\<open>authApi.googleOAuthLogin\<close> and \<^verbatim>\<open>authApi.getMe\<close>.\<close>

record net =
  googleOAuthLogin :: "string \<Rightarrow> exchange_outcome"
  getMe :: profile_outcome

section \<open>The credential callback\<close>

definition emit :: "event \<Rightarrow> sys_state \<Rightarrow> sys_state" where
  "emit e st = st\<lparr>events := events st @ [e]\<rparr>"

definition dispatch :: "auth_action \<Rightarrow> sys_state \<Rightarrow> sys_state" where
  "dispatch a st = emit (Dispatch a) (st\<lparr>auth := authReducer (auth st) a\<rparr>)"

text \<open>\<^verbatim>\<open>Cookies.set(name, value, attrs)\<close>\<close>

definition cookie_set :: "string \<Rightarrow> cookie \<Rightarrow> sys_state \<Rightarrow> sys_state" where
  "cookie_set name c st = emit (CookieSet name c) (st\<lparr>cookies := (cookies st)(name := Some c)\<rparr>)"

text \<open>\<^verbatim>\<open>authApi.setToken(token)\<close>\<close>

definition setToken :: "string \<Rightarrow> sys_state \<Rightarrow> sys_state" where
  "setToken tok st = emit (SetToken tok) (st\<lparr>axios_token := Some tok\<rparr>)"

text \<open>\<^verbatim>\<open>userDetails.role || undefined\<close>: a missing role and the role 0 both give undefined.\<close>

fun role_or_undefined :: "int option \<Rightarrow> int option" where
  "role_or_undefined None = None"
| "role_or_undefined (Some r) = (if r = 0 then None else Some r)"

text \<open>The \<^verbatim>\<open>catch\<close> block (lines 126-131).\<close>

definition on_error :: "env \<Rightarrow> thrown \<Rightarrow> sys_state \<Rightarrow> sys_state" where
  "on_error ev e st =
     (let errorMessage = getErrorMessage ev e
      in emit (MessageError errorMessage 5) (dispatch (LoginFailure errorMessage) st))"

text \<open>
  A piece of the callback either ends the attempt or suspends at the next \<^verbatim>\<open>await\<close>.
\<close>

datatype progress = Done sys_state | Awaiting sys_state

text \<open>Lines 54-60: from the entry to the first \<^verbatim>\<open>await\<close>.\<close>

definition callback_begin :: "env \<Rightarrow> string \<Rightarrow> sys_state \<Rightarrow> progress" where
  "callback_begin ev credential st =
     (let st1 = dispatch LoginStart st
      in if credential = []
         then Done (on_error ev (JsError ''No credential received from Google'') st1)
         else Awaiting (emit (CallExchange credential) st1))"

text \<open>
  \<^verbatim>\<open>result && result.data && result.data.accessToken\<close> (line 64): the access token and
  the refresh token of a usable response.
\<close>

definition usable_tokens :: "login_response option \<Rightarrow> (string \<times> string option) option" where
  "usable_tokens result =
     (case result of
        None \<Rightarrow> None
      | Some r \<Rightarrow>
          (case data r of
             None \<Rightarrow> None
           | Some d \<Rightarrow>
               (case accessToken d of
                  None \<Rightarrow> None
                | Some a \<Rightarrow> if a = [] then None else Some (a, refreshToken d))))"

text \<open>Lines 60-89: from the settled exchange to the second \<^verbatim>\<open>await\<close>.\<close>

definition after_exchange :: "env \<Rightarrow> exchange_outcome \<Rightarrow> sys_state \<Rightarrow> progress" where
  "after_exchange ev outcome st =
     (case outcome of
        Inl e \<Rightarrow> Done (on_error ev e st)
      | Inr result \<Rightarrow>
          (case usable_tokens result of
             None \<Rightarrow> Done (on_error ev (JsError ''Invalid response from server'') st)
           | Some (acc, refresh) \<Rightarrow>
               (let st1 = cookie_set ''access_token''
                            \<lparr>cvalue = acc, path = ''/'', expires = 1, sameSite = Lax,
                             secure = (protocol ev = ''https:'')\<rparr> st;
                    st2 = (case refresh of
                             None \<Rightarrow> st1
                           | Some r \<Rightarrow>
                               if r = [] then st1
                               else cookie_set ''refresh_token''
                                      \<lparr>cvalue = r, path = ''/'', expires = 7, sameSite = Lax,
                                       secure = (protocol ev = ''https:'')\<rparr> st1);
                    st3 = setToken acc st2
                in Awaiting (emit CallGetMe st3))))"

text \<open>
  Lines 89-125: from the settled profile fetch to the end. The success branch is still
  inside the \<^verbatim>\<open>try\<close>: when \<^verbatim>\<open>t("auth.loginSuccess")\<close> throws (before \<^verbatim>\<open>message.success\<close> is
  called) or \<^verbatim>\<open>onSuccess()\<close> throws, the \<^verbatim>\<open>catch\<close> block runs after \<^verbatim>\<open>loginSuccess\<close> has
  been dispatched, and the timer is never set.
\<close>

definition after_getMe :: "env \<Rightarrow> profile_outcome \<Rightarrow> sys_state \<Rightarrow> sys_state" where
  "after_getMe ev outcome st =
     (case outcome of
        Inl e \<Rightarrow> on_error ev e st
      | Inr None \<Rightarrow> on_error ev (JsError ''Failed to fetch user details'') st
      | Inr (Some userDetails) \<Rightarrow>
          (let st1 = dispatch (LoginSuccess
                       \<lparr>user_id = ud_id userDetails, email = ud_email userDetails,
                        username = ud_username userDetails, confirmed = ud_confirmed userDetails,
                        role_id = role_or_undefined (ud_role userDetails)\<rparr>) st
           in case translate ev ''auth.loginSuccess'' of
                Inl e \<Rightarrow> on_error ev e st1
              | Inr text \<Rightarrow>
                  (let st2 = emit (MessageSuccess text 3) st1
                   in case onSuccess ev of
                        NoObserver \<Rightarrow> emit (SetTimeout 1000) st2
                      | ObserverReturns \<Rightarrow> emit (SetTimeout 1000) (emit OnSuccess st2)
                      | ObserverThrows e \<Rightarrow> on_error ev e (emit OnSuccess st2))))"

text \<open>One uninterrupted run of the callback: each await is answered by the collaborator.\<close>

definition handleGoogleCallback :: "env \<Rightarrow> net \<Rightarrow> string \<Rightarrow> sys_state \<Rightarrow> sys_state" where
  "handleGoogleCallback ev nw credential st =
     (case callback_begin ev credential st of
        Done s \<Rightarrow> s
      | Awaiting s \<Rightarrow>
          (case after_exchange ev (googleOAuthLogin nw credential) s of
             Done s' \<Rightarrow> s'
           | Awaiting s' \<Rightarrow> after_getMe ev (getMe nw) s'))"

subsection \<open>Reading the event log of one run\<close>

definition new_events :: "sys_state \<Rightarrow> sys_state \<Rightarrow> event list" where
  "new_events st st' = drop (length (events st)) (events st')"

fun is_network_call :: "event \<Rightarrow> bool" where
  "is_network_call (CallExchange c) = True"
| "is_network_call CallGetMe = True"
| "is_network_call e = False"

fun is_cookie_write :: "event \<Rightarrow> bool" where
  "is_cookie_write (CookieSet n c) = True"
| "is_cookie_write e = False"

text \<open>The actions dispatched to the store, in order.\<close>

fun dispatched :: "event list \<Rightarrow> auth_action list" where
  "dispatched [] = []"
| "dispatched (Dispatch a # es) = a # dispatched es"
| "dispatched (e # es) = dispatched es"

text \<open>
  The auth states the store publishes, one per dispatched action, starting from the
  state before the run.
\<close>

fun published :: "auth_state \<Rightarrow> event list \<Rightarrow> auth_state list" where
  "published s [] = []"
| "published s (Dispatch a # es) = authReducer s a # published (authReducer s a) es"
| "published s (e # es) = published s es"

fun is_error_notice :: "event \<Rightarrow> bool" where
  "is_error_notice (MessageError m d) = True"
| "is_error_notice e = False"

text \<open>The cookie attributes the callback passes to \<^verbatim>\<open>Cookies.set\<close> (lines 67-72 and 76-81).\<close>

definition access_cookie :: "env \<Rightarrow> string \<Rightarrow> cookie" where
  "access_cookie ev v =
     \<lparr>cvalue = v, path = ''/'', expires = 1, sameSite = Lax, secure = (protocol ev = ''https:'')\<rparr>"

definition refresh_cookie :: "env \<Rightarrow> string \<Rightarrow> cookie" where
  "refresh_cookie ev v =
     \<lparr>cvalue = v, path = ''/'', expires = 7, sameSite = Lax, secure = (protocol ev = ''https:'')\<rparr>"

text \<open>The cookie writes of a run whose exchange was usable, in the order in which they happen.\<close>

definition persist_events :: "env \<Rightarrow> string \<Rightarrow> string option \<Rightarrow> event list" where
  "persist_events ev a rt =
     CookieSet ''access_token'' (access_cookie ev a) #
       (case rt of
          None \<Rightarrow> []
        | Some t \<Rightarrow> if t = [] then [] else [CookieSet ''refresh_token'' (refresh_cookie ev t)])"

text \<open>The cookie jar after those writes.\<close>

definition persist_jar ::
  "env \<Rightarrow> string \<Rightarrow> string option \<Rightarrow> (string \<Rightarrow> cookie option) \<Rightarrow> (string \<Rightarrow> cookie option)" where
  "persist_jar ev a rt jar =
     (case rt of
        None \<Rightarrow> jar(''access_token'' := Some (access_cookie ev a))
      | Some t \<Rightarrow>
          if t = [] then jar(''access_token'' := Some (access_cookie ev a))
          else jar(''access_token'' := Some (access_cookie ev a),
                   ''refresh_token'' := Some (refresh_cookie ev t)))"

section \<open>Overlapping attempts\<close>

text \<open>
  The callback may be invoked again while an earlier invocation is suspended at an
  \<^verbatim>\<open>await\<close>. JavaScript runs the synchronous pieces one at a time; a schedule lists, in
  the order in which they run, the invocations and the settlements of the collaborators'
  promises. Attempts are told apart by a number chosen by the schedule; the component
  itself keeps no such number.
\<close>

datatype phase = AtExchange | AtGetMe

datatype sched_event =
    Invoke nat string
  | ExchangeSettles nat exchange_outcome
  | GetMeSettles nat profile_outcome

record world =
  sys :: sys_state
  suspended :: "nat \<Rightarrow> phase option"

definition step :: "env \<Rightarrow> world \<Rightarrow> sched_event \<Rightarrow> world" where
  "step ev w e =
     (case e of
        Invoke i credential \<Rightarrow>
          (if suspended w i = None
           then (case callback_begin ev credential (sys w) of
                   Done s \<Rightarrow> w\<lparr>sys := s\<rparr>
                 | Awaiting s \<Rightarrow> w\<lparr>sys := s, suspended := (suspended w)(i := Some AtExchange)\<rparr>)
           else w)
      | ExchangeSettles i outcome \<Rightarrow>
          (if suspended w i = Some AtExchange
           then (case after_exchange ev outcome (sys w) of
                   Done s \<Rightarrow> w\<lparr>sys := s, suspended := (suspended w)(i := None)\<rparr>
                 | Awaiting s \<Rightarrow> w\<lparr>sys := s, suspended := (suspended w)(i := Some AtGetMe)\<rparr>)
           else w)
      | GetMeSettles i outcome \<Rightarrow>
          (if suspended w i = Some AtGetMe
           then w\<lparr>sys := after_getMe ev outcome (sys w), suspended := (suspended w)(i := None)\<rparr>
           else w))"

definition run :: "env \<Rightarrow> world \<Rightarrow> sched_event list \<Rightarrow> world" where
  "run ev w sched = foldl (step ev) w sched"

text \<open>What the terminal piece of an attempt publishes, as a function of the settlement alone.\<close>

definition failed_with :: "env \<Rightarrow> thrown \<Rightarrow> auth_state" where
  "failed_with ev e = \<lparr>status = Failed, user = None, error = Some (getErrorMessage ev e)\<rparr>"

definition profile_of :: "user_details \<Rightarrow> user_profile" where
  "profile_of d =
     \<lparr>user_id = ud_id d, email = ud_email d, username = ud_username d,
      confirmed = ud_confirmed d, role_id = role_or_undefined (ud_role d)\<rparr>"

text \<open>What the props throw in the success branch, if anything: the lookup comes first.\<close>

definition props_throw :: "env \<Rightarrow> thrown option" where
  "props_throw ev =
     (case translate ev ''auth.loginSuccess'' of
        Inl e \<Rightarrow> Some e
      | Inr text \<Rightarrow>
          (case onSuccess ev of
             NoObserver \<Rightarrow> None
           | ObserverReturns \<Rightarrow> None
           | ObserverThrows e \<Rightarrow> Some e))"

definition profile_result :: "env \<Rightarrow> profile_outcome \<Rightarrow> auth_state" where
  "profile_result ev outcome =
     (case outcome of
        Inl e \<Rightarrow> failed_with ev e
      | Inr None \<Rightarrow> failed_with ev (JsError ''Failed to fetch user details'')
      | Inr (Some d) \<Rightarrow>
          (case props_throw ev of
             None \<Rightarrow> \<lparr>status = Authenticated, user = Some (profile_of d), error = None\<rparr>
           | Some e \<Rightarrow> failed_with ev e))"

section \<open>The script loader\<close>

text \<open>
  \<^verbatim>\<open>loadGoogleOAuthScript\<close> keeps no state of its own: it reads \<^verbatim>\<open>window.google\<close> and
  the script elements of the document. A page holds both, the promises the loader has
  returned so far (a call's promise is numbered by its position) and the pending
  \<^verbatim>\<open>setTimeout\<close> callbacks. Each script element remembers whether the browser has
  already fired its one \<^verbatim>\<open>load\<close> or \<^verbatim>\<open>error\<close> event.
\<close>

datatype promise = Pending | Resolved | Rejected string

datatype fetch_state = InFlight | Loaded | Errored

record script_el =
  src :: string
  async_attr :: bool
  defer_attr :: bool
  onload :: "nat option"
  onerror :: "nat option"
  load_listeners :: "nat list"
  error_listeners :: "nat list"
  fetch :: fetch_state

record page =
  google :: bool
  scripts :: "script_el list"
  promises :: "promise list"
  timers :: "nat list"

definition gsi_url :: string where
  "gsi_url = ''https://accounts.google.com/gsi/client''"

text \<open>\<^verbatim>\<open>resolve()\<close> and \<^verbatim>\<open>reject(..)\<close>: only a pending promise changes.\<close>

definition settle :: "promise \<Rightarrow> nat \<Rightarrow> page \<Rightarrow> page" where
  "settle v p pg =
     (if p < length (promises pg) \<and> promises pg ! p = Pending
      then pg\<lparr>promises := (promises pg)[p := v]\<rparr>
      else pg)"

text \<open>
  \<^verbatim>\<open>existingScript.addEventListener(..)\<close> on the first element that
  \<^verbatim>\<open>document.querySelector\<close> finds (lines 52-56).
\<close>

fun add_listeners :: "nat \<Rightarrow> script_el list \<Rightarrow> script_el list" where
  "add_listeners p [] = []"
| "add_listeners p (s # ss) =
     (if src s = gsi_url
      then s\<lparr>load_listeners := load_listeners s @ [p],
             error_listeners := error_listeners s @ [p]\<rparr> # ss
      else s # add_listeners p ss)"

definition loadGoogleOAuthScript :: "page \<Rightarrow> page" where
  "loadGoogleOAuthScript pg =
     (let p = length (promises pg)
      in if google pg then pg\<lparr>promises := promises pg @ [Resolved]\<rparr>
         else if find (\<lambda>s. src s = gsi_url) (scripts pg) \<noteq> None
         then pg\<lparr>promises := promises pg @ [Pending], scripts := add_listeners p (scripts pg)\<rparr>
         else pg\<lparr>promises := promises pg @ [Pending],
                 scripts := scripts pg @
                   [\<lparr>src = gsi_url, async_attr = True, defer_attr = True, onload = Some p, onerror = Some p,
                     load_listeners = [], error_listeners = [], fetch = InFlight\<rparr>]\<rparr>)"

text \<open>
  What happens on the page: a call of the loader, the browser firing the load or the
  error event of the script element at a position, a 100 ms timer of a promise running
  out, and the identity library installing its global API.
\<close>

datatype page_event = Call | ScriptLoad nat | ScriptError nat | TimerFires nat | LibraryReady

definition run_handler :: "promise \<Rightarrow> nat option \<Rightarrow> page \<Rightarrow> page" where
  "run_handler v h pg = (case h of None \<Rightarrow> pg | Some p \<Rightarrow> settle v p pg)"

definition failed_to_load :: promise where
  "failed_to_load = Rejected ''Failed to load Google OAuth script''"

definition page_step :: "page \<Rightarrow> page_event \<Rightarrow> page" where
  "page_step pg e =
     (case e of
        Call \<Rightarrow> loadGoogleOAuthScript pg
      | LibraryReady \<Rightarrow> pg\<lparr>google := True\<rparr>
      | ScriptLoad k \<Rightarrow>
          (if k < length (scripts pg) \<and> fetch (scripts pg ! k) = InFlight
           then (let s = scripts pg ! k;
                     pg1 = pg\<lparr>scripts := (scripts pg)[k := s\<lparr>fetch := Loaded\<rparr>]\<rparr>;
                     pg2 = (case onload s of
                              None \<Rightarrow> pg1
                            | Some p \<Rightarrow> pg1\<lparr>timers := timers pg1 @ [p]\<rparr>)
                 in foldr (settle Resolved) (load_listeners s) pg2)
           else pg)
      | ScriptError k \<Rightarrow>
          (if k < length (scripts pg) \<and> fetch (scripts pg ! k) = InFlight
           then (let s = scripts pg ! k;
                     pg1 = pg\<lparr>scripts := (scripts pg)[k := s\<lparr>fetch := Errored\<rparr>]\<rparr>;
                     pg2 = run_handler failed_to_load (onerror s) pg1
                 in foldr (settle failed_to_load) (error_listeners s) pg2)
           else pg)
      | TimerFires p \<Rightarrow>
          (if p \<in> set (timers pg)
           then (let pg1 = pg\<lparr>timers := removeAll p (timers pg)\<rparr>
                 in if google pg1 then settle Resolved p pg1
                    else settle (Rejected ''Google OAuth API not available after script load'') p pg1)
           else pg))"

definition page_run :: "page \<Rightarrow> page_event list \<Rightarrow> page" where
  "page_run pg es = foldl page_step pg es"

definition empty_page :: page where
  "empty_page = \<lparr>google = False, scripts = [], promises = [], timers = []\<rparr>"

text \<open>
  A promise that waits on a script element whose fetch has already failed: the element is
  the only script of the document, and no timer is left for the promise.
\<close>

definition waits_on_failed_script :: "nat \<Rightarrow> page \<Rightarrow> bool" where
  "waits_on_failed_script p pg =
     ((case scripts pg of
         [] \<Rightarrow> False
       | s # rest \<Rightarrow> rest = [] \<and> src s = gsi_url \<and> fetch s = Errored)
      \<and> p < length (promises pg) \<and> promises pg ! p = Pending \<and> p \<notin> set (timers pg))"

section \<open>The script-loading effect of the login modal\<close>

text \<open>\<^verbatim>\<open>validateGoogleClientId\<close> (googleOAuth.ts, lines 90-96), on the configured client id.\<close>

definition validateGoogleClientId :: "string \<Rightarrow> bool" where
  "validateGoogleClientId clientId =
     (length clientId > 0 \<and> clientId \<noteq> ''your_google_client_id_here'')"

text \<open>\<^verbatim>\<open>t("auth.googleLoadFailed") || "Failed to load Google authentication"\<close>\<close>

definition load_failed_text :: "env \<Rightarrow> thrown + string" where
  "load_failed_text ev =
     (case translate ev ''auth.googleLoadFailed'' of
        Inl e \<Rightarrow> Inl e
      | Inr text \<Rightarrow> Inr (if text = [] then ''Failed to load Google authentication'' else text))"

text \<open>
  \<^verbatim>\<open>initializeGoogleOAuth\<close> (loginModal.tsx, lines 152-162) once the loader's promise has
  settled: \<^verbatim>\<open>setIsGoogleLoaded(true)\<close>, or the \<^verbatim>\<open>catch\<close> block. A lookup that throws
  inside the \<^verbatim>\<open>catch\<close> block leaves it before \<^verbatim>\<open>message.error\<close> is called; nothing is shown.
\<close>

definition initializeGoogleOAuth :: "env \<Rightarrow> promise \<Rightarrow> sys_state \<Rightarrow> sys_state" where
  "initializeGoogleOAuth ev outcome st =
     (case outcome of
        Pending \<Rightarrow> st
      | Resolved \<Rightarrow> st\<lparr>isGoogleLoaded := True\<rparr>
      | Rejected m \<Rightarrow>
          (case load_failed_text ev of
             Inl e \<Rightarrow> st
           | Inr text \<Rightarrow> emit (MessageError text 5) st))"

text \<open>The effect itself (lines 146-167): nothing happens without a usable client id or while the modal is closed.\<close>

definition loadEffect :: "env \<Rightarrow> string \<Rightarrow> bool \<Rightarrow> promise \<Rightarrow> sys_state \<Rightarrow> sys_state" where
  "loadEffect ev clientId isOpen outcome st =
     (if \<not> validateGoogleClientId clientId then st
      else if isOpen then initializeGoogleOAuth ev outcome st
      else st)"

section \<open>Concrete inputs\<close>

text \<open>
  Modelled from the spec: \<^verbatim>\<open>getErrorMessage\<close> of \<^verbatim>\<open>utils/apiHandler\<close> is not among the
  sources. Section 4.3 says a failed attempt ends with "the collaborator's surfaced error
  message" and section 7 that the error is "a human-readable message"; for concrete runs
  the function returns the text the thrown value carries.
\<close>

fun surfaced_text :: "thrown \<Rightarrow> string" where
  "surfaced_text (JsError m) = m"
| "surfaced_text (ApiError m) = m"

definition sample_env :: env where
  "sample_env =
     \<lparr>getErrorMessage = surfaced_text, translate = (\<lambda>k. Inr k), onSuccess = ObserverReturns,
      protocol = ''https:''\<rparr>"

text \<open>The same, with an \<^verbatim>\<open>onSuccess\<close> prop that throws.\<close>

definition throwing_env :: env where
  "throwing_env =
     \<lparr>getErrorMessage = surfaced_text, translate = (\<lambda>k. Inr k),
      onSuccess = ObserverThrows (JsError ''onSuccess failed''), protocol = ''https:''\<rparr>"

definition fresh_state :: sys_state where
  "fresh_state =
     \<lparr>auth = initialAuth, cookies = (\<lambda>n. None), axios_token = None, isGoogleLoaded = False,
      events = []\<rparr>"

definition fresh_world :: world where
  "fresh_world = \<lparr>sys = fresh_state, suspended = (\<lambda>i. None)\<rparr>"

definition tokens_acc1_ref1 :: login_response where
  "tokens_acc1_ref1 =
     \<lparr>statusCode = 200, message = ''OK'',
      data = Some \<lparr>accessToken = Some ''acc1'', refreshToken = Some ''ref1''\<rparr>\<rparr>"

definition tokens_acc1_only :: login_response where
  "tokens_acc1_only =
     \<lparr>statusCode = 200, message = ''OK'',
      data = Some \<lparr>accessToken = Some ''acc1'', refreshToken = None\<rparr>\<rparr>"

definition tokens_missing :: login_response where
  "tokens_missing =
     \<lparr>statusCode = 200, message = ''OK'',
      data = Some \<lparr>accessToken = None, refreshToken = Some ''ref1''\<rparr>\<rparr>"

definition alice :: user_details where
  "alice =
     \<lparr>ud_id = 7, ud_email = ''a@b.com'', ud_username = ''alice'', ud_confirmed = True,
      ud_role = None\<rparr>"

definition net_ok :: net where
  "net_ok = \<lparr>googleOAuthLogin = (\<lambda>c. Inr (Some tokens_acc1_ref1)), getMe = Inr (Some alice)\<rparr>"

definition net_no_refresh :: net where
  "net_no_refresh = \<lparr>googleOAuthLogin = (\<lambda>c. Inr (Some tokens_acc1_only)), getMe = Inr (Some alice)\<rparr>"

definition net_exchange_rejects :: net where
  "net_exchange_rejects =
     \<lparr>googleOAuthLogin = (\<lambda>c. Inl (ApiError ''Request failed with status code 401'')),
      getMe = Inr (Some alice)\<rparr>"

definition net_tokens_missing :: net where
  "net_tokens_missing = \<lparr>googleOAuthLogin = (\<lambda>c. Inr (Some tokens_missing)), getMe = Inr (Some alice)\<rparr>"

definition net_profile_rejects :: net where
  "net_profile_rejects =
     \<lparr>googleOAuthLogin = (\<lambda>c. Inr (Some tokens_acc1_ref1)), getMe = Inl (ApiError ''Network Error'')\<rparr>"

definition net_profile_empty :: net where
  "net_profile_empty = \<lparr>googleOAuthLogin = (\<lambda>c. Inr (Some tokens_acc1_ref1)), getMe = Inr None\<rparr>"

text \<open>
  Two overlapping attempts: attempt 1 starts, attempt 2 starts while attempt 1 waits for
  the exchange; attempt 2 runs to the end and succeeds; then the exchange of attempt 1
  is rejected.
\<close>

definition race_schedule :: "sched_event list" where
  "race_schedule =
     [Invoke 1 ''credA'', Invoke 2 ''credB'',
      ExchangeSettles 2 (Inr (Some tokens_acc1_ref1)), GetMeSettles 2 (Inr (Some alice)),
      ExchangeSettles 1 (Inl (ApiError ''Request failed with status code 401''))]"

section \<open>Facts about the pieces of the callback\<close>

lemmas effect_defs = on_error_def dispatch_def emit_def cookie_set_def setToken_def Let_def

lemma on_error_state:
  "on_error ev e s =
     s\<lparr>auth := failed_with ev e,
       events := events s @ [Dispatch (LoginFailure (getErrorMessage ev e)),
                             MessageError (getErrorMessage ev e) 5]\<rparr>"
  by (simp add: effect_defs failed_with_def)

lemma callback_begin_empty:
  "callback_begin ev [] st =
     Done (st\<lparr>auth := failed_with ev (JsError ''No credential received from Google''),
              events := events st @
                [Dispatch LoginStart,
                 Dispatch (LoginFailure
                   (getErrorMessage ev (JsError ''No credential received from Google''))),
                 MessageError
                   (getErrorMessage ev (JsError ''No credential received from Google'')) 5]\<rparr>)"
  by (simp add: callback_begin_def effect_defs failed_with_def)

lemma callback_begin_nonempty:
  "credential \<noteq> [] \<Longrightarrow>
   callback_begin ev credential st =
     Awaiting (st\<lparr>auth := \<lparr>status = Authenticating, user = None, error = None\<rparr>,
                  events := events st @ [Dispatch LoginStart, CallExchange credential]\<rparr>)"
  by (simp add: callback_begin_def effect_defs)

lemma after_exchange_rejected:
  "after_exchange ev (Inl e) s = Done (on_error ev e s)"
  by (simp add: after_exchange_def)

lemma after_exchange_unusable:
  "usable_tokens result = None \<Longrightarrow>
   after_exchange ev (Inr result) s =
     Done (on_error ev (JsError ''Invalid response from server'') s)"
  by (simp add: after_exchange_def)

lemma after_exchange_usable:
  "usable_tokens result = Some (a, rt) \<Longrightarrow>
   after_exchange ev (Inr result) s =
     Awaiting (s\<lparr>cookies := persist_jar ev a rt (cookies s),
                 axios_token := Some a,
                 events := events s @ persist_events ev a rt @ [SetToken a, CallGetMe]\<rparr>)"
  by (simp add: after_exchange_def effect_defs persist_events_def persist_jar_def
        access_cookie_def refresh_cookie_def split: option.split)

lemma usable_tokens_None:
  "usable_tokens result = None \<longleftrightarrow>
     (result = None
      \<or> (\<exists>r. result = Some r \<and> data r = None)
      \<or> (\<exists>r d. result = Some r \<and> data r = Some d
              \<and> (accessToken d = None \<or> accessToken d = Some [])))"
  by (auto simp add: usable_tokens_def split: option.splits)

lemma usable_tokens_Some:
  "data r = Some d \<Longrightarrow> accessToken d = Some a \<Longrightarrow> a \<noteq> [] \<Longrightarrow>
   usable_tokens (Some r) = Some (a, refreshToken d)"
  by (simp add: usable_tokens_def)

lemma after_getMe_cookies: "cookies (after_getMe ev outcome s) = cookies s"
  by (simp add: after_getMe_def effect_defs split: sum.split option.split observer.split)

lemma after_getMe_axios: "axios_token (after_getMe ev outcome s) = axios_token s"
  by (simp add: after_getMe_def effect_defs split: sum.split option.split observer.split)

lemma after_getMe_auth: "auth (after_getMe ev outcome s) = profile_result ev outcome"
  by (simp add: after_getMe_def effect_defs profile_result_def props_throw_def failed_with_def
        profile_of_def split: sum.split option.split observer.split)

lemma after_getMe_events:
  "\<exists>tl. events (after_getMe ev outcome s) = events s @ tl
      \<and> filter is_cookie_write tl = [] \<and> filter is_network_call tl = []
      \<and> CallGetMe \<notin> set tl"
  by (simp add: after_getMe_def effect_defs split: sum.split option.split observer.split)

text \<open>The success branch, by what the props do.\<close>

lemma after_getMe_success_events:
  "\<exists>tl. events (after_getMe ev (Inr (Some d)) s) = events s @ tl
      \<and> dispatched tl =
            LoginSuccess (profile_of d) #
              (case props_throw ev of
                 None \<Rightarrow> []
               | Some e \<Rightarrow> [LoginFailure (getErrorMessage ev e)])
      \<and> filter is_error_notice tl =
            (case props_throw ev of
               None \<Rightarrow> []
             | Some e \<Rightarrow> [MessageError (getErrorMessage ev e) 5])"
  by (simp add: after_getMe_def effect_defs props_throw_def profile_of_def
        split: sum.split observer.split)

lemma after_getMe_failure:
  "after_getMe ev (Inl e) s = on_error ev e s"
  "after_getMe ev (Inr None) s = on_error ev (JsError ''Failed to fetch user details'') s"
  by (simp_all add: after_getMe_def)

lemma persist_events_cookie_writes:
  "filter is_cookie_write (persist_events ev a rt) = persist_events ev a rt"
  "filter is_network_call (persist_events ev a rt) = []"
  "CallGetMe \<notin> set (persist_events ev a rt)"
  "dispatched (persist_events ev a rt) = []"
  by (simp_all add: persist_events_def split: option.split)

lemma dispatched_append: "dispatched (xs @ ys) = dispatched xs @ dispatched ys"
  by (induction xs rule: dispatched.induct) simp_all

lemma after_getMe_success:
  "dispatched (drop (length (events s)) (events (after_getMe ev (Inr (Some d)) s))) =
     LoginSuccess (profile_of d) #
       (case props_throw ev of
          None \<Rightarrow> []
        | Some e \<Rightarrow> [LoginFailure (getErrorMessage ev e)])"
proof -
  obtain tl where "events (after_getMe ev (Inr (Some d)) s) = events s @ tl"
    and "dispatched tl =
            LoginSuccess (profile_of d) #
              (case props_throw ev of
                 None \<Rightarrow> []
               | Some e \<Rightarrow> [LoginFailure (getErrorMessage ev e)])"
    using after_getMe_success_events [of ev d s] by blast
  then show ?thesis by simp
qed

text \<open>A run with a rejected exchange.\<close>

lemma run_exchange_rejected:
  assumes "credential \<noteq> []" and "googleOAuthLogin nw credential = Inl e"
  shows "handleGoogleCallback ev nw credential st =
           st\<lparr>auth := failed_with ev e,
              events := events st @
                [Dispatch LoginStart, CallExchange credential,
                 Dispatch (LoginFailure (getErrorMessage ev e)),
                 MessageError (getErrorMessage ev e) 5]\<rparr>"
  using assms
  by (simp add: handleGoogleCallback_def callback_begin_nonempty after_exchange_rejected
        on_error_state)

text \<open>A run with an unusable response.\<close>

lemma run_exchange_unusable:
  assumes "credential \<noteq> []" and "googleOAuthLogin nw credential = Inr result"
    and "usable_tokens result = None"
  shows "handleGoogleCallback ev nw credential st =
           st\<lparr>auth := failed_with ev (JsError ''Invalid response from server''),
              events := events st @
                [Dispatch LoginStart, CallExchange credential,
                 Dispatch (LoginFailure
                   (getErrorMessage ev (JsError ''Invalid response from server''))),
                 MessageError
                   (getErrorMessage ev (JsError ''Invalid response from server'')) 5]\<rparr>"
  using assms
  by (simp add: handleGoogleCallback_def callback_begin_nonempty after_exchange_unusable
        on_error_state)

text \<open>A run with a usable response reaches the last piece with the tokens persisted.\<close>

lemma run_exchange_usable:
  assumes "credential \<noteq> []" and "googleOAuthLogin nw credential = Inr result"
    and "usable_tokens result = Some (a, rt)"
  shows "handleGoogleCallback ev nw credential st =
           after_getMe ev (getMe nw)
             (st\<lparr>auth := \<lparr>status = Authenticating, user = None, error = None\<rparr>,
                 cookies := persist_jar ev a rt (cookies st),
                 axios_token := Some a,
                 events := events st @ [Dispatch LoginStart, CallExchange credential]
                             @ persist_events ev a rt @ [SetToken a, CallGetMe]\<rparr>)"
  using assms
  by (simp add: handleGoogleCallback_def callback_begin_nonempty after_exchange_usable)

lemma run_usable_events:
  assumes "credential \<noteq> []" and "googleOAuthLogin nw credential = Inr result"
    and "usable_tokens result = Some (a, rt)"
  shows "\<exists>tl. new_events st (handleGoogleCallback ev nw credential st) =
                [Dispatch LoginStart, CallExchange credential] @ persist_events ev a rt
                  @ [SetToken a, CallGetMe] @ tl
            \<and> filter is_cookie_write tl = [] \<and> filter is_network_call tl = []
            \<and> CallGetMe \<notin> set tl"
proof -
  let ?s = "st\<lparr>auth := \<lparr>status = Authenticating, user = None, error = None\<rparr>,
                 cookies := persist_jar ev a rt (cookies st),
                 axios_token := Some a,
                 events := events st @ [Dispatch LoginStart, CallExchange credential]
                             @ persist_events ev a rt @ [SetToken a, CallGetMe]\<rparr>"
  obtain tl where tl: "events (after_getMe ev (getMe nw) ?s) = events ?s @ tl"
    "filter is_cookie_write tl = []" "filter is_network_call tl = []" "CallGetMe \<notin> set tl"
    using after_getMe_events [of ev "getMe nw" ?s] by blast
  have "new_events st (handleGoogleCallback ev nw credential st) =
          [Dispatch LoginStart, CallExchange credential] @ persist_events ev a rt
            @ [SetToken a, CallGetMe] @ tl"
    using tl(1) by (simp add: run_exchange_usable [OF assms] new_events_def)
  with tl show ?thesis by blast
qed

lemma new_events_after_getMe:
  assumes "events s = events st @ pre"
  shows "new_events st (after_getMe ev outcome s) =
           pre @ drop (length (events s)) (events (after_getMe ev outcome s))"
proof -
  obtain tl where tl: "events (after_getMe ev outcome s) = events s @ tl"
    using after_getMe_events [of ev outcome s] by blast
  show ?thesis by (simp add: new_events_def tl assms)
qed

lemma after_getMe_dispatched:
  "dispatched (drop (length (events s)) (events (after_getMe ev outcome s))) =
     (case outcome of
        Inl e \<Rightarrow> [LoginFailure (getErrorMessage ev e)]
      | Inr None \<Rightarrow>
          [LoginFailure (getErrorMessage ev (JsError ''Failed to fetch user details''))]
      | Inr (Some d) \<Rightarrow>
          LoginSuccess (profile_of d) #
            (case props_throw ev of
               None \<Rightarrow> []
             | Some e \<Rightarrow> [LoginFailure (getErrorMessage ev e)]))"
proof (cases outcome)
  case (Inl e)
  then show ?thesis by (simp add: after_getMe_failure on_error_state)
next
  case (Inr profile)
  then show ?thesis
  proof (cases profile)
    case None
    with Inr show ?thesis by (simp add: after_getMe_failure on_error_state)
  next
    case (Some d)
    with Inr show ?thesis by (simp only: after_getMe_success sum.case option.case)
  qed
qed

lemma run_usable_dispatched:
  assumes "credential \<noteq> []" and "googleOAuthLogin nw credential = Inr result"
    and "usable_tokens result = Some (a, rt)"
  shows "dispatched (new_events st (handleGoogleCallback ev nw credential st)) =
           LoginStart #
             (case getMe nw of
                Inl e \<Rightarrow> [LoginFailure (getErrorMessage ev e)]
              | Inr None \<Rightarrow>
                  [LoginFailure (getErrorMessage ev (JsError ''Failed to fetch user details''))]
              | Inr (Some d) \<Rightarrow>
                  LoginSuccess (profile_of d) #
                    (case props_throw ev of
                       None \<Rightarrow> []
                     | Some e \<Rightarrow> [LoginFailure (getErrorMessage ev e)]))"
proof -
  let ?s = "st\<lparr>auth := \<lparr>status = Authenticating, user = None, error = None\<rparr>,
                 cookies := persist_jar ev a rt (cookies st),
                 axios_token := Some a,
                 events := events st @ [Dispatch LoginStart, CallExchange credential]
                             @ persist_events ev a rt @ [SetToken a, CallGetMe]\<rparr>"
  have pre: "events ?s = events st @ ([Dispatch LoginStart, CallExchange credential]
                             @ persist_events ev a rt @ [SetToken a, CallGetMe])"
    by simp
  have quiet: "dispatched ([Dispatch LoginStart, CallExchange credential]
                 @ persist_events ev a rt @ [SetToken a, CallGetMe]) = [LoginStart]"
    by (simp add: dispatched_append persist_events_cookie_writes)
  note last_piece = after_getMe_dispatched [of ?s ev "getMe nw"]
  let ?pre = "[Dispatch LoginStart, CallExchange credential]
                @ persist_events ev a rt @ [SetToken a, CallGetMe]"
  let ?post = "drop (length (events ?s)) (events (after_getMe ev (getMe nw) ?s))"
  have split: "new_events st (handleGoogleCallback ev nw credential st) = ?pre @ ?post"
    by (simp only: run_exchange_usable [OF assms] new_events_after_getMe [OF pre])
  have "dispatched (new_events st (handleGoogleCallback ev nw credential st)) =
          dispatched ?pre @ dispatched ?post"
    by (simp only: split dispatched_append)
  also have "\<dots> = [LoginStart] @
             (case getMe nw of
                Inl e \<Rightarrow> [LoginFailure (getErrorMessage ev e)]
              | Inr None \<Rightarrow>
                  [LoginFailure (getErrorMessage ev (JsError ''Failed to fetch user details''))]
              | Inr (Some d) \<Rightarrow>
                  LoginSuccess (profile_of d) #
                    (case props_throw ev of
                       None \<Rightarrow> []
                     | Some e \<Rightarrow> [LoginFailure (getErrorMessage ev e)]))"
    by (simp only: quiet last_piece)
  finally show ?thesis by simp
qed

section \<open>The claims about the credential callback\<close>

lemma props_throw_None:
  "props_throw ev = None \<longleftrightarrow>
     ((\<exists>text. translate ev ''auth.loginSuccess'' = Inr text)
      \<and> (\<forall>e. onSuccess ev \<noteq> ObserverThrows e))"
  by (auto simp add: props_throw_def split: sum.splits observer.splits)

text \<open>
  Claim C1, as the code has it. When the credential is "cred123", the exchange returns
  status 200 with access token "acc1" and refresh token "ref1", and the profile fetch
  returns id 7, "a@b.com", "alice", confirmed (no role), then whatever the state before
  the run, the cookie jar holds "acc1" under \<^verbatim>\<open>access_token\<close> with an expiry of 1 day and
  "ref1" under \<^verbatim>\<open>refresh_token\<close> with an expiry of 7 days. When, in addition, the lookup
  \<^verbatim>\<open>t("auth.loginSuccess")\<close> returns and the \<^verbatim>\<open>onSuccess\<close> prop does not throw, the run
  dispatches \<^verbatim>\<open>loginStart\<close> and then \<^verbatim>\<open>loginSuccess\<close> with exactly that user and no role, and
  the published auth state is authenticated with that user and no error.
\<close>

theorem C1_end_to_end:
  assumes "googleOAuthLogin nw ''cred123'' =
             Inr (Some \<lparr>statusCode = 200, message = m,
                        data = Some \<lparr>accessToken = Some ''acc1'', refreshToken = Some ''ref1''\<rparr>\<rparr>)"
    and "getMe nw = Inr (Some \<lparr>ud_id = 7, ud_email = ''a@b.com'', ud_username = ''alice'',
                              ud_confirmed = True, ud_role = None\<rparr>)"
  shows "((\<exists>text. translate ev ''auth.loginSuccess'' = Inr text)
          \<and> (\<forall>e. onSuccess ev \<noteq> ObserverThrows e) \<longrightarrow>
            auth (handleGoogleCallback ev nw ''cred123'' st) =
              \<lparr>status = Authenticated,
               user = Some \<lparr>user_id = 7, email = ''a@b.com'', username = ''alice'',
                            confirmed = True, role_id = None\<rparr>,
               error = None\<rparr>
          \<and> dispatched (new_events st (handleGoogleCallback ev nw ''cred123'' st)) =
              [LoginStart,
               LoginSuccess \<lparr>user_id = 7, email = ''a@b.com'', username = ''alice'',
                             confirmed = True, role_id = None\<rparr>])
       \<and> cookies (handleGoogleCallback ev nw ''cred123'' st) ''access_token'' =
           Some \<lparr>cvalue = ''acc1'', path = ''/'', expires = 1, sameSite = Lax,
                 secure = (protocol ev = ''https:'')\<rparr>
       \<and> cookies (handleGoogleCallback ev nw ''cred123'' st) ''refresh_token'' =
           Some \<lparr>cvalue = ''ref1'', path = ''/'', expires = 7, sameSite = Lax,
                 secure = (protocol ev = ''https:'')\<rparr>"
proof -
  have u: "usable_tokens (Some \<lparr>statusCode = 200, message = m,
              data = Some \<lparr>accessToken = Some ''acc1'', refreshToken = Some ''ref1''\<rparr>\<rparr>) =
             Some (''acc1'', Some ''ref1'')"
    by (simp add: usable_tokens_def)
  have ne: "''cred123'' \<noteq> []" by simp
  have actions: "dispatched (new_events st (handleGoogleCallback ev nw ''cred123'' st)) =
           [LoginStart,
            LoginSuccess \<lparr>user_id = 7, email = ''a@b.com'', username = ''alice'',
                          confirmed = True, role_id = None\<rparr>]"
    if "props_throw ev = None"
    by (simp add: run_usable_dispatched [OF ne assms(1) u] assms(2) profile_of_def that)
  have state: "auth (handleGoogleCallback ev nw ''cred123'' st) =
           \<lparr>status = Authenticated,
            user = Some \<lparr>user_id = 7, email = ''a@b.com'', username = ''alice'',
                         confirmed = True, role_id = None\<rparr>,
            error = None\<rparr>"
    if "props_throw ev = None"
    by (simp add: run_exchange_usable [OF ne assms(1) u] after_getMe_auth assms(2)
          profile_result_def profile_of_def that)
  have jar: "cookies (handleGoogleCallback ev nw ''cred123'' st) ''access_token'' =
           Some \<lparr>cvalue = ''acc1'', path = ''/'', expires = 1, sameSite = Lax,
                 secure = (protocol ev = ''https:'')\<rparr>
       \<and> cookies (handleGoogleCallback ev nw ''cred123'' st) ''refresh_token'' =
           Some \<lparr>cvalue = ''ref1'', path = ''/'', expires = 7, sameSite = Lax,
                 secure = (protocol ev = ''https:'')\<rparr>"
    by (simp add: run_exchange_usable [OF ne assms(1) u] after_getMe_cookies
          persist_jar_def access_cookie_def refresh_cookie_def)
  from actions state jar show ?thesis
    unfolding props_throw_None by blast
qed

theorem C1_end_to_end_witness:
  "translate sample_env ''auth.loginSuccess'' = Inr ''auth.loginSuccess''
   \<and> onSuccess sample_env = ObserverReturns
   \<and> auth (handleGoogleCallback sample_env net_ok ''cred123'' fresh_state) =
     \<lparr>status = Authenticated,
      user = Some \<lparr>user_id = 7, email = ''a@b.com'', username = ''alice'',
                   confirmed = True, role_id = None\<rparr>,
      error = None\<rparr>
   \<and> dispatched (new_events fresh_state
         (handleGoogleCallback sample_env net_ok ''cred123'' fresh_state)) =
       [LoginStart,
        LoginSuccess \<lparr>user_id = 7, email = ''a@b.com'', username = ''alice'',
                      confirmed = True, role_id = None\<rparr>]
   \<and> cookies (handleGoogleCallback sample_env net_ok ''cred123'' fresh_state) ''access_token'' =
       Some \<lparr>cvalue = ''acc1'', path = ''/'', expires = 1, sameSite = Lax, secure = True\<rparr>
   \<and> cookies (handleGoogleCallback sample_env net_ok ''cred123'' fresh_state) ''refresh_token'' =
       Some \<lparr>cvalue = ''ref1'', path = ''/'', expires = 7, sameSite = Lax, secure = True\<rparr>"
  using C1_end_to_end [where nw = net_ok and m = "''OK''" and ev = sample_env
          and st = fresh_state]
  by (simp add: net_ok_def tokens_acc1_ref1_def alice_def sample_env_def)

text \<open>
  Claim C1 as stated fails: with the same credential, exchange response and profile, and
  an \<^verbatim>\<open>onSuccess\<close> prop that throws, the \<^verbatim>\<open>catch\<close> block runs after \<^verbatim>\<open>loginSuccess\<close>: the run
  dispatches \<^verbatim>\<open>loginFailure\<close> last and the published auth state is Failed, without a user.
\<close>

theorem C1_counterexample:
  "googleOAuthLogin net_ok ''cred123'' =
     Inr (Some \<lparr>statusCode = 200, message = ''OK'',
                data = Some \<lparr>accessToken = Some ''acc1'', refreshToken = Some ''ref1''\<rparr>\<rparr>)
   \<and> getMe net_ok =
       Inr (Some \<lparr>ud_id = 7, ud_email = ''a@b.com'', ud_username = ''alice'',
                  ud_confirmed = True, ud_role = None\<rparr>)
   \<and> onSuccess throwing_env = ObserverThrows (JsError ''onSuccess failed'')
   \<and> auth (handleGoogleCallback throwing_env net_ok ''cred123'' fresh_state) =
       \<lparr>status = Failed, user = None, error = Some ''onSuccess failed''\<rparr>
   \<and> dispatched (new_events fresh_state
         (handleGoogleCallback throwing_env net_ok ''cred123'' fresh_state)) =
       [LoginStart,
        LoginSuccess \<lparr>user_id = 7, email = ''a@b.com'', username = ''alice'',
                      confirmed = True, role_id = None\<rparr>,
        LoginFailure ''onSuccess failed'']"
  by (simp add: handleGoogleCallback_def callback_begin_def after_exchange_def after_getMe_def
        usable_tokens_def effect_defs new_events_def net_ok_def tokens_acc1_ref1_def alice_def
        throwing_env_def fresh_state_def)

text \<open>
  Claim C3, as the code has it. With an empty credential the run dispatches \<^verbatim>\<open>loginStart\<close>
  (line 54) before it tests the credential (line 56): the store first publishes
  Authenticating, with user and error cleared, and then, in the same synchronous piece,
  Failed with the message of \<^verbatim>\<open>Error("No credential received from Google")\<close>. The user is
  told once, neither the exchange nor the profile collaborator is called, and nothing
  else changes. The specification's reason "missing credential" names this error.
\<close>

theorem C3_empty_credential:
  "handleGoogleCallback ev nw [] st =
     st\<lparr>auth := \<lparr>status = Failed, user = None,
                  error = Some (getErrorMessage ev (JsError ''No credential received from Google''))\<rparr>,
        events := events st @
          [Dispatch LoginStart,
           Dispatch (LoginFailure
             (getErrorMessage ev (JsError ''No credential received from Google''))),
           MessageError (getErrorMessage ev (JsError ''No credential received from Google'')) 5]\<rparr>
   \<and> published (auth st) (new_events st (handleGoogleCallback ev nw [] st)) =
       [\<lparr>status = Authenticating, user = None, error = None\<rparr>,
        \<lparr>status = Failed, user = None,
         error = Some (getErrorMessage ev (JsError ''No credential received from Google''))\<rparr>]
   \<and> filter is_network_call (new_events st (handleGoogleCallback ev nw [] st)) = []"
  by (simp add: handleGoogleCallback_def callback_begin_empty failed_with_def new_events_def)

text \<open>
  Claim C3 as stated fails: from the initial state, with an empty credential, the store
  does not go to Failed directly; it publishes Authenticating first.
\<close>

theorem C3_counterexample:
  "status (auth fresh_state) = Idle
   \<and> map status
       (published (auth fresh_state)
          (new_events fresh_state (handleGoogleCallback sample_env net_ok [] fresh_state))) =
       [Authenticating, Failed]
   \<and> dispatched (new_events fresh_state (handleGoogleCallback sample_env net_ok [] fresh_state)) =
       [LoginStart, LoginFailure ''No credential received from Google'']"
  by (simp add: handleGoogleCallback_def callback_begin_def effect_defs new_events_def
        fresh_state_def initialAuth_def sample_env_def)

text \<open>
  Claim C4. When the credential is present and the exchange call is rejected, or answers
  with nothing, with no \<^verbatim>\<open>data\<close>, or with a missing or empty \<^verbatim>\<open>accessToken\<close>, the run
  dispatches \<^verbatim>\<open>loginFailure\<close> and the attempt ends Failed: with the collaborator's error in
  the first case and with the message of \<^verbatim>\<open>Error("Invalid response from server")\<close> in the
  others. In all of these runs the
  cookie jar and the axios token are what they were, the run writes no cookie, and the
  exchange is the only collaborator called.
\<close>

theorem C4_failed_exchange:
  assumes "credential \<noteq> []"
  shows "(googleOAuthLogin nw credential = Inl e \<longrightarrow>
            auth (handleGoogleCallback ev nw credential st) =
              \<lparr>status = Failed, user = None, error = Some (getErrorMessage ev e)\<rparr>
          \<and> dispatched (new_events st (handleGoogleCallback ev nw credential st)) =
              [LoginStart, LoginFailure (getErrorMessage ev e)])
       \<and> (googleOAuthLogin nw credential = Inr None
          \<or> (\<exists>r. googleOAuthLogin nw credential = Inr (Some r) \<and> data r = None)
          \<or> (\<exists>r d. googleOAuthLogin nw credential = Inr (Some r) \<and> data r = Some d
                  \<and> (accessToken d = None \<or> accessToken d = Some [])) \<longrightarrow>
            auth (handleGoogleCallback ev nw credential st) =
              \<lparr>status = Failed, user = None,
               error = Some (getErrorMessage ev (JsError ''Invalid response from server''))\<rparr>
          \<and> dispatched (new_events st (handleGoogleCallback ev nw credential st)) =
              [LoginStart,
               LoginFailure (getErrorMessage ev (JsError ''Invalid response from server''))])
       \<and> ((\<exists>x. googleOAuthLogin nw credential = Inl x)
          \<or> googleOAuthLogin nw credential = Inr None
          \<or> (\<exists>r. googleOAuthLogin nw credential = Inr (Some r) \<and> data r = None)
          \<or> (\<exists>r d. googleOAuthLogin nw credential = Inr (Some r) \<and> data r = Some d
                  \<and> (accessToken d = None \<or> accessToken d = Some [])) \<longrightarrow>
            status (auth (handleGoogleCallback ev nw credential st)) = Failed
          \<and> cookies (handleGoogleCallback ev nw credential st) = cookies st
          \<and> axios_token (handleGoogleCallback ev nw credential st) = axios_token st
          \<and> filter is_cookie_write
               (new_events st (handleGoogleCallback ev nw credential st)) = []
          \<and> filter is_network_call
               (new_events st (handleGoogleCallback ev nw credential st)) =
               [CallExchange credential])"
proof -
  have rejected: "auth (handleGoogleCallback ev nw credential st) = failed_with ev x
        \<and> dispatched (new_events st (handleGoogleCallback ev nw credential st)) =
              [LoginStart, LoginFailure (getErrorMessage ev x)]
        \<and> cookies (handleGoogleCallback ev nw credential st) = cookies st
        \<and> axios_token (handleGoogleCallback ev nw credential st) = axios_token st
        \<and> filter is_cookie_write
             (new_events st (handleGoogleCallback ev nw credential st)) = []
        \<and> filter is_network_call
             (new_events st (handleGoogleCallback ev nw credential st)) =
             [CallExchange credential]"
    if "googleOAuthLogin nw credential = Inl x" for x
    by (simp add: run_exchange_rejected [OF assms that] new_events_def)
  have unusable: "auth (handleGoogleCallback ev nw credential st) =
          failed_with ev (JsError ''Invalid response from server'')
        \<and> dispatched (new_events st (handleGoogleCallback ev nw credential st)) =
              [LoginStart,
               LoginFailure (getErrorMessage ev (JsError ''Invalid response from server''))]
        \<and> cookies (handleGoogleCallback ev nw credential st) = cookies st
        \<and> axios_token (handleGoogleCallback ev nw credential st) = axios_token st
        \<and> filter is_cookie_write
             (new_events st (handleGoogleCallback ev nw credential st)) = []
        \<and> filter is_network_call
             (new_events st (handleGoogleCallback ev nw credential st)) =
             [CallExchange credential]"
    if "googleOAuthLogin nw credential = Inr result" and "usable_tokens result = None"
    for result
    by (simp add: run_exchange_unusable [OF assms that] new_events_def)
  have cases: "\<exists>result. googleOAuthLogin nw credential = Inr result \<and> usable_tokens result = None"
    if "googleOAuthLogin nw credential = Inr None
          \<or> (\<exists>r. googleOAuthLogin nw credential = Inr (Some r) \<and> data r = None)
          \<or> (\<exists>r d. googleOAuthLogin nw credential = Inr (Some r) \<and> data r = Some d
                  \<and> (accessToken d = None \<or> accessToken d = Some []))"
    using that by (auto simp add: usable_tokens_None)
  show ?thesis
    using rejected unusable cases by (fastforce simp add: failed_with_def)
qed

theorem C4_failed_exchange_witness:
  "''cred123'' \<noteq> []
   \<and> googleOAuthLogin net_exchange_rejects ''cred123'' =
       Inl (ApiError ''Request failed with status code 401'')
   \<and> auth (handleGoogleCallback sample_env net_exchange_rejects ''cred123'' fresh_state) =
       \<lparr>status = Failed, user = None, error = Some ''Request failed with status code 401''\<rparr>
   \<and> cookies (handleGoogleCallback sample_env net_exchange_rejects ''cred123'' fresh_state)
       ''access_token'' = None
   \<and> googleOAuthLogin net_tokens_missing ''cred123'' = Inr (Some tokens_missing)
   \<and> data tokens_missing = Some \<lparr>accessToken = None, refreshToken = Some ''ref1''\<rparr>
   \<and> auth (handleGoogleCallback sample_env net_tokens_missing ''cred123'' fresh_state) =
       \<lparr>status = Failed, user = None, error = Some ''Invalid response from server''\<rparr>
   \<and> cookies (handleGoogleCallback sample_env net_tokens_missing ''cred123'' fresh_state)
       ''refresh_token'' = None"
  using C4_failed_exchange [of "''cred123''" net_exchange_rejects
          "ApiError ''Request failed with status code 401''" sample_env fresh_state]
    C4_failed_exchange [of "''cred123''" net_tokens_missing
          "ApiError ''Request failed with status code 401''" sample_env fresh_state]
  by (simp add: net_exchange_rejects_def net_tokens_missing_def tokens_missing_def
        sample_env_def fresh_state_def)

text \<open>
  Claim C9. After a usable exchange response (access token \<open>a\<close> present and non-empty)
  the cookie jar holds \<open>a\<close> under \<^verbatim>\<open>access_token\<close> with path "/", an expiry of 1 day,
  SameSite Lax and the secure flag set exactly when the page's protocol is "https:";
  a present, non-empty refresh token is held under \<^verbatim>\<open>refresh_token\<close> with the same
  attributes and an expiry of 7 days. The run calls the profile collaborator exactly
  once, every cookie write of the run lies before that call, and none after it.
\<close>

theorem C9_token_policy:
  assumes "credential \<noteq> []"
    and "googleOAuthLogin nw credential = Inr (Some r)"
    and "data r = Some d"
    and "accessToken d = Some a" and "a \<noteq> []"
  shows "cookies (handleGoogleCallback ev nw credential st) ''access_token'' =
           Some \<lparr>cvalue = a, path = ''/'', expires = 1, sameSite = Lax,
                 secure = (protocol ev = ''https:'')\<rparr>
       \<and> (\<forall>t. refreshToken d = Some t \<and> t \<noteq> [] \<longrightarrow>
            cookies (handleGoogleCallback ev nw credential st) ''refresh_token'' =
              Some \<lparr>cvalue = t, path = ''/'', expires = 7, sameSite = Lax,
                    secure = (protocol ev = ''https:'')\<rparr>)
       \<and> (\<exists>before after.
             new_events st (handleGoogleCallback ev nw credential st) =
               before @ [CallGetMe] @ after
           \<and> filter is_cookie_write before = persist_events ev a (refreshToken d)
           \<and> filter is_cookie_write after = []
           \<and> CallGetMe \<notin> set before \<and> CallGetMe \<notin> set after)"
proof -
  have u: "usable_tokens (Some r) = Some (a, refreshToken d)"
    using assms(3-5) by (rule usable_tokens_Some)
  note run = run_exchange_usable [OF assms(1) assms(2) u]
  have jar: "cookies (handleGoogleCallback ev nw credential st) =
               persist_jar ev a (refreshToken d) (cookies st)"
    by (simp add: run after_getMe_cookies)
  have access: "cookies (handleGoogleCallback ev nw credential st) ''access_token'' =
           Some \<lparr>cvalue = a, path = ''/'', expires = 1, sameSite = Lax,
                 secure = (protocol ev = ''https:'')\<rparr>"
    by (simp add: jar persist_jar_def access_cookie_def split: option.split)
  have refresh: "cookies (handleGoogleCallback ev nw credential st) ''refresh_token'' =
              Some \<lparr>cvalue = t, path = ''/'', expires = 7, sameSite = Lax,
                    secure = (protocol ev = ''https:'')\<rparr>"
    if "refreshToken d = Some t" and "t \<noteq> []" for t
    using that by (simp add: jar persist_jar_def refresh_cookie_def)
  obtain tl where tl:
    "new_events st (handleGoogleCallback ev nw credential st) =
       [Dispatch LoginStart, CallExchange credential] @ persist_events ev a (refreshToken d)
         @ [SetToken a, CallGetMe] @ tl"
    "filter is_cookie_write tl = []" "CallGetMe \<notin> set tl"
    using run_usable_events [OF assms(1) assms(2) u] by blast
  let ?before = "[Dispatch LoginStart, CallExchange credential]
                   @ persist_events ev a (refreshToken d) @ [SetToken a]"
  have order: "new_events st (handleGoogleCallback ev nw credential st) =
                 ?before @ [CallGetMe] @ tl
             \<and> filter is_cookie_write ?before = persist_events ev a (refreshToken d)
             \<and> filter is_cookie_write tl = []
             \<and> CallGetMe \<notin> set ?before \<and> CallGetMe \<notin> set tl"
    using tl by (simp add: persist_events_cookie_writes)
  from access refresh order show ?thesis by blast
qed

theorem C9_token_policy_witness:
  "''cred123'' \<noteq> []
   \<and> googleOAuthLogin net_ok ''cred123'' = Inr (Some tokens_acc1_ref1)
   \<and> cookies (handleGoogleCallback (sample_env\<lparr>protocol := ''http:''\<rparr>) net_ok ''cred123''
        fresh_state) ''access_token'' =
       Some \<lparr>cvalue = ''acc1'', path = ''/'', expires = 1, sameSite = Lax, secure = False\<rparr>
   \<and> cookies (handleGoogleCallback (sample_env\<lparr>protocol := ''http:''\<rparr>) net_ok ''cred123''
        fresh_state) ''refresh_token'' =
       Some \<lparr>cvalue = ''ref1'', path = ''/'', expires = 7, sameSite = Lax, secure = False\<rparr>"
  using C9_token_policy [of "''cred123''" net_ok tokens_acc1_ref1
          "\<lparr>accessToken = Some ''acc1'', refreshToken = Some ''ref1''\<rparr>" "''acc1''"
          "sample_env\<lparr>protocol := ''http:''\<rparr>" fresh_state]
  by (simp add: net_ok_def tokens_acc1_ref1_def sample_env_def)

text \<open>
  Claim C10. After a usable exchange response the run always writes the access-token
  cookie, and the cookie jar holds the access token afterwards; it writes the
  refresh-token cookie, and the jar holds the refresh token, exactly when the response
  carries a non-empty refresh token, and otherwise leaves that entry of the jar as it was.
  In either case the run goes on to call the profile collaborator, and when that returns
  a profile (and neither the \<^verbatim>\<open>t\<close> lookup nor \<^verbatim>\<open>onSuccess\<close> throws) the attempt ends
  authenticated with it.
\<close>

theorem C10_optional_refresh_token:
  assumes "credential \<noteq> []"
    and "googleOAuthLogin nw credential = Inr (Some r)"
    and "data r = Some d"
    and "accessToken d = Some a" and "a \<noteq> []"
  shows "filter is_cookie_write (new_events st (handleGoogleCallback ev nw credential st)) =
           CookieSet ''access_token'' (access_cookie ev a) #
             (case refreshToken d of
                None \<Rightarrow> []
              | Some t \<Rightarrow>
                  if t = [] then [] else [CookieSet ''refresh_token'' (refresh_cookie ev t)])
       \<and> ((\<exists>c. CookieSet ''refresh_token'' c
                  \<in> set (new_events st (handleGoogleCallback ev nw credential st)))
            = (\<exists>t. refreshToken d = Some t \<and> t \<noteq> []))
       \<and> cookies (handleGoogleCallback ev nw credential st) =
           persist_jar ev a (refreshToken d) (cookies st)
       \<and> cookies (handleGoogleCallback ev nw credential st) ''access_token'' =
           Some \<lparr>cvalue = a, path = ''/'', expires = 1, sameSite = Lax,
                 secure = (protocol ev = ''https:'')\<rparr>
       \<and> (\<forall>t. refreshToken d = Some t \<and> t \<noteq> [] \<longrightarrow>
            cookies (handleGoogleCallback ev nw credential st) ''refresh_token'' =
              Some \<lparr>cvalue = t, path = ''/'', expires = 7, sameSite = Lax,
                    secure = (protocol ev = ''https:'')\<rparr>)
       \<and> (refreshToken d = None \<or> refreshToken d = Some [] \<longrightarrow>
            cookies (handleGoogleCallback ev nw credential st) ''refresh_token'' =
              cookies st ''refresh_token'')
       \<and> CallGetMe \<in> set (new_events st (handleGoogleCallback ev nw credential st))
       \<and> (\<forall>u. getMe nw = Inr (Some u)
              \<and> (\<exists>text. translate ev ''auth.loginSuccess'' = Inr text)
              \<and> (\<forall>e. onSuccess ev \<noteq> ObserverThrows e) \<longrightarrow>
            auth (handleGoogleCallback ev nw credential st) =
              \<lparr>status = Authenticated, user = Some (profile_of u), error = None\<rparr>)"
proof -
  have u: "usable_tokens (Some r) = Some (a, refreshToken d)"
    using assms(3-5) by (rule usable_tokens_Some)
  note run = run_exchange_usable [OF assms(1) assms(2) u]
  obtain tl where tl:
    "new_events st (handleGoogleCallback ev nw credential st) =
       [Dispatch LoginStart, CallExchange credential] @ persist_events ev a (refreshToken d)
         @ [SetToken a, CallGetMe] @ tl"
    "filter is_cookie_write tl = []"
    using run_usable_events [OF assms(1) assms(2) u] by blast
  have writes: "filter is_cookie_write
                  (new_events st (handleGoogleCallback ev nw credential st)) =
                persist_events ev a (refreshToken d)"
    using tl by (simp add: persist_events_cookie_writes)
  have mem: "(CookieSet n c \<in> set (new_events st (handleGoogleCallback ev nw credential st)))
             = (CookieSet n c \<in> set (persist_events ev a (refreshToken d)))" for n c
  proof -
    have "(CookieSet n c \<in> set (new_events st (handleGoogleCallback ev nw credential st)))
          = (CookieSet n c \<in> set (filter is_cookie_write
               (new_events st (handleGoogleCallback ev nw credential st))))"
      by simp
    then show ?thesis by (simp only: writes)
  qed
  have iff: "(\<exists>c. CookieSet ''refresh_token'' c
                  \<in> set (new_events st (handleGoogleCallback ev nw credential st)))
            = (\<exists>t. refreshToken d = Some t \<and> t \<noteq> [])"
  proof (cases "refreshToken d")
    case None
    then show ?thesis by (simp add: mem persist_events_def)
  next
    case (Some t)
    then show ?thesis by (cases "t = []") (simp_all add: mem persist_events_def)
  qed
  have jar: "cookies (handleGoogleCallback ev nw credential st) =
               persist_jar ev a (refreshToken d) (cookies st)"
    by (simp add: run after_getMe_cookies)
  have access: "cookies (handleGoogleCallback ev nw credential st) ''access_token'' =
           Some \<lparr>cvalue = a, path = ''/'', expires = 1, sameSite = Lax,
                 secure = (protocol ev = ''https:'')\<rparr>"
    by (simp add: jar persist_jar_def access_cookie_def split: option.split)
  have refresh: "cookies (handleGoogleCallback ev nw credential st) ''refresh_token'' =
              Some \<lparr>cvalue = t, path = ''/'', expires = 7, sameSite = Lax,
                    secure = (protocol ev = ''https:'')\<rparr>"
    if "refreshToken d = Some t \<and> t \<noteq> []" for t
    using that by (simp add: jar persist_jar_def refresh_cookie_def)
  have untouched: "cookies (handleGoogleCallback ev nw credential st) ''refresh_token'' =
              cookies st ''refresh_token''"
    if "refreshToken d = None \<or> refreshToken d = Some []"
    using that by (auto simp add: jar persist_jar_def)
  have called: "CallGetMe \<in> set (new_events st (handleGoogleCallback ev nw credential st))"
    by (simp add: tl(1))
  have success: "auth (handleGoogleCallback ev nw credential st) =
              \<lparr>status = Authenticated, user = Some (profile_of u), error = None\<rparr>"
    if "getMe nw = Inr (Some u)
          \<and> (\<exists>text. translate ev ''auth.loginSuccess'' = Inr text)
          \<and> (\<forall>e. onSuccess ev \<noteq> ObserverThrows e)" for u
  proof -
    from that have "props_throw ev = None" by (simp add: props_throw_None)
    with that show ?thesis by (simp add: run after_getMe_auth profile_result_def)
  qed
  have writes': "filter is_cookie_write
                   (new_events st (handleGoogleCallback ev nw credential st)) =
           CookieSet ''access_token'' (access_cookie ev a) #
             (case refreshToken d of
                None \<Rightarrow> []
              | Some t \<Rightarrow>
                  if t = [] then [] else [CookieSet ''refresh_token'' (refresh_cookie ev t)])"
    by (simp only: writes persist_events_def)
  from writes' iff jar access refresh untouched called success show ?thesis by blast
qed

theorem C10_optional_refresh_token_witness:
  "''cred123'' \<noteq> []
   \<and> googleOAuthLogin net_no_refresh ''cred123'' = Inr (Some tokens_acc1_only)
   \<and> data tokens_acc1_only = Some \<lparr>accessToken = Some ''acc1'', refreshToken = None\<rparr>
   \<and> getMe net_no_refresh = Inr (Some alice)
   \<and> filter is_cookie_write
       (new_events fresh_state
          (handleGoogleCallback sample_env net_no_refresh ''cred123'' fresh_state)) =
       [CookieSet ''access_token''
          \<lparr>cvalue = ''acc1'', path = ''/'', expires = 1, sameSite = Lax, secure = True\<rparr>]
   \<and> cookies (handleGoogleCallback sample_env net_no_refresh ''cred123'' fresh_state)
       ''access_token'' =
       Some \<lparr>cvalue = ''acc1'', path = ''/'', expires = 1, sameSite = Lax, secure = True\<rparr>
   \<and> cookies (handleGoogleCallback sample_env net_no_refresh ''cred123'' fresh_state)
       ''refresh_token'' = None
   \<and> status (auth (handleGoogleCallback sample_env net_no_refresh ''cred123'' fresh_state)) =
       Authenticated
   \<and> googleOAuthLogin net_ok ''cred123'' = Inr (Some tokens_acc1_ref1)
   \<and> data tokens_acc1_ref1 =
       Some \<lparr>accessToken = Some ''acc1'', refreshToken = Some ''ref1''\<rparr>
   \<and> cookies (handleGoogleCallback sample_env net_ok ''cred123'' fresh_state)
       ''refresh_token'' =
       Some \<lparr>cvalue = ''ref1'', path = ''/'', expires = 7, sameSite = Lax, secure = True\<rparr>"
proof -
  have ne: "''cred123'' \<noteq> []" by simp
  have ane: "''acc1'' \<noteq> []" by simp
  have x1: "googleOAuthLogin net_no_refresh ''cred123'' = Inr (Some tokens_acc1_only)"
    by (simp add: net_no_refresh_def)
  have d1: "data tokens_acc1_only = Some \<lparr>accessToken = Some ''acc1'', refreshToken = None\<rparr>"
    by (simp add: tokens_acc1_only_def)
  have a1: "accessToken \<lparr>accessToken = Some ''acc1'', refreshToken = None\<rparr> = Some ''acc1''"
    by simp
  have g1: "getMe net_no_refresh = Inr (Some alice)" by (simp add: net_no_refresh_def)
  have x2: "googleOAuthLogin net_ok ''cred123'' = Inr (Some tokens_acc1_ref1)"
    by (simp add: net_ok_def)
  have d2: "data tokens_acc1_ref1 =
              Some \<lparr>accessToken = Some ''acc1'', refreshToken = Some ''ref1''\<rparr>"
    by (simp add: tokens_acc1_ref1_def)
  have a2: "accessToken \<lparr>accessToken = Some ''acc1'', refreshToken = Some ''ref1''\<rparr> =
              Some ''acc1''"
    by simp
  have props: "(\<exists>text. translate sample_env ''auth.loginSuccess'' = Inr text)
                 \<and> (\<forall>e. onSuccess sample_env \<noteq> ObserverThrows e)"
    by (simp add: sample_env_def)
  note absent = C10_optional_refresh_token [OF ne x1 d1 a1 ane,
      where ev = sample_env and st = fresh_state]
  note present = C10_optional_refresh_token [OF ne x2 d2 a2 ane,
      where ev = sample_env and st = fresh_state]
  have r1: "filter is_cookie_write
       (new_events fresh_state
          (handleGoogleCallback sample_env net_no_refresh ''cred123'' fresh_state)) =
       [CookieSet ''access_token''
          \<lparr>cvalue = ''acc1'', path = ''/'', expires = 1, sameSite = Lax, secure = True\<rparr>]"
    using absent [THEN conjunct1] by (simp add: access_cookie_def sample_env_def)
  have r2: "cookies (handleGoogleCallback sample_env net_no_refresh ''cred123'' fresh_state)
       ''access_token'' =
       Some \<lparr>cvalue = ''acc1'', path = ''/'', expires = 1, sameSite = Lax, secure = True\<rparr>"
    using absent [THEN conjunct2, THEN conjunct2, THEN conjunct2, THEN conjunct1]
    by (simp add: sample_env_def)
  have "cookies (handleGoogleCallback sample_env net_no_refresh ''cred123'' fresh_state)
       ''refresh_token'' = cookies fresh_state ''refresh_token''"
    using absent [THEN conjunct2, THEN conjunct2, THEN conjunct2, THEN conjunct2,
        THEN conjunct2, THEN conjunct1]
    by simp
  then have r3: "cookies (handleGoogleCallback sample_env net_no_refresh ''cred123''
                   fresh_state) ''refresh_token'' = None"
    by (simp add: fresh_state_def)
  have "auth (handleGoogleCallback sample_env net_no_refresh ''cred123'' fresh_state) =
          \<lparr>status = Authenticated, user = Some (profile_of alice), error = None\<rparr>"
    using absent [THEN conjunct2, THEN conjunct2, THEN conjunct2, THEN conjunct2,
        THEN conjunct2, THEN conjunct2, THEN conjunct2] g1 props
    by blast
  then have r4: "status (auth (handleGoogleCallback sample_env net_no_refresh ''cred123''
                   fresh_state)) = Authenticated"
    by simp
  have r5: "cookies (handleGoogleCallback sample_env net_ok ''cred123'' fresh_state)
       ''refresh_token'' =
       Some \<lparr>cvalue = ''ref1'', path = ''/'', expires = 7, sameSite = Lax, secure = True\<rparr>"
    using present [THEN conjunct2, THEN conjunct2, THEN conjunct2, THEN conjunct2,
        THEN conjunct1]
    by (simp add: sample_env_def)
  from ne x1 d1 g1 r1 r2 r3 r4 x2 d2 r5 show ?thesis by blast
qed

text \<open>
  Claim C2, as the code has it. After a usable exchange response and a failing profile
  fetch the attempt ends Failed and the cookie jar is exactly the jar after persistence:
  the run writes the token cookies and no other, and the axios token is the access token.
  The reason depends on how the fetch failed: when \<^verbatim>\<open>getMe\<close> returns no profile the run
  dispatches \<^verbatim>\<open>loginFailure\<close> with the message of \<^verbatim>\<open>Error("Failed to fetch user details")\<close>;
  when the call itself is rejected, with the message of the rejection.
\<close>

theorem C2_profile_failure_keeps_tokens:
  assumes "credential \<noteq> []"
    and "googleOAuthLogin nw credential = Inr (Some r)"
    and "data r = Some d"
    and "accessToken d = Some a" and "a \<noteq> []"
  shows "(getMe nw = Inr None \<longrightarrow>
            auth (handleGoogleCallback ev nw credential st) =
              \<lparr>status = Failed, user = None,
               error = Some (getErrorMessage ev (JsError ''Failed to fetch user details''))\<rparr>
          \<and> dispatched (new_events st (handleGoogleCallback ev nw credential st)) =
              [LoginStart,
               LoginFailure (getErrorMessage ev (JsError ''Failed to fetch user details''))])
       \<and> (getMe nw = Inl e \<longrightarrow>
            auth (handleGoogleCallback ev nw credential st) =
              \<lparr>status = Failed, user = None, error = Some (getErrorMessage ev e)\<rparr>
          \<and> dispatched (new_events st (handleGoogleCallback ev nw credential st)) =
              [LoginStart, LoginFailure (getErrorMessage ev e)])
       \<and> cookies (handleGoogleCallback ev nw credential st) =
           persist_jar ev a (refreshToken d) (cookies st)
       \<and> cookies (handleGoogleCallback ev nw credential st) ''access_token'' =
           Some (access_cookie ev a)
       \<and> (\<forall>t. refreshToken d = Some t \<and> t \<noteq> [] \<longrightarrow>
            cookies (handleGoogleCallback ev nw credential st) ''refresh_token'' =
              Some (refresh_cookie ev t))
       \<and> filter is_cookie_write (new_events st (handleGoogleCallback ev nw credential st)) =
           persist_events ev a (refreshToken d)
       \<and> axios_token (handleGoogleCallback ev nw credential st) = Some a"
proof -
  have u: "usable_tokens (Some r) = Some (a, refreshToken d)"
    using assms(3-5) by (rule usable_tokens_Some)
  note run = run_exchange_usable [OF assms(1) assms(2) u]
  note actions = run_usable_dispatched [OF assms(1) assms(2) u, of st ev]
  have empty: "auth (handleGoogleCallback ev nw credential st) =
              \<lparr>status = Failed, user = None,
               error = Some (getErrorMessage ev (JsError ''Failed to fetch user details''))\<rparr>
          \<and> dispatched (new_events st (handleGoogleCallback ev nw credential st)) =
              [LoginStart,
               LoginFailure (getErrorMessage ev (JsError ''Failed to fetch user details''))]"
    if "getMe nw = Inr None"
  proof
    show "auth (handleGoogleCallback ev nw credential st) =
              \<lparr>status = Failed, user = None,
               error = Some (getErrorMessage ev (JsError ''Failed to fetch user details''))\<rparr>"
      by (simp add: run after_getMe_auth that profile_result_def failed_with_def)
    show "dispatched (new_events st (handleGoogleCallback ev nw credential st)) =
              [LoginStart,
               LoginFailure (getErrorMessage ev (JsError ''Failed to fetch user details''))]"
      by (simp add: actions that)
  qed
  have rejected: "auth (handleGoogleCallback ev nw credential st) =
              \<lparr>status = Failed, user = None, error = Some (getErrorMessage ev e)\<rparr>
          \<and> dispatched (new_events st (handleGoogleCallback ev nw credential st)) =
              [LoginStart, LoginFailure (getErrorMessage ev e)]"
    if "getMe nw = Inl e"
  proof
    show "auth (handleGoogleCallback ev nw credential st) =
              \<lparr>status = Failed, user = None, error = Some (getErrorMessage ev e)\<rparr>"
      by (simp add: run after_getMe_auth that profile_result_def failed_with_def)
    show "dispatched (new_events st (handleGoogleCallback ev nw credential st)) =
              [LoginStart, LoginFailure (getErrorMessage ev e)]"
      by (simp add: actions that)
  qed
  have jar: "cookies (handleGoogleCallback ev nw credential st) =
               persist_jar ev a (refreshToken d) (cookies st)"
    by (simp add: run after_getMe_cookies)
  have access: "cookies (handleGoogleCallback ev nw credential st) ''access_token'' =
           Some (access_cookie ev a)"
    by (simp add: jar persist_jar_def split: option.split)
  have refresh: "cookies (handleGoogleCallback ev nw credential st) ''refresh_token'' =
              Some (refresh_cookie ev t)"
    if "refreshToken d = Some t" and "t \<noteq> []" for t
    using that by (simp add: jar persist_jar_def)
  obtain tl where tl:
    "new_events st (handleGoogleCallback ev nw credential st) =
       [Dispatch LoginStart, CallExchange credential] @ persist_events ev a (refreshToken d)
         @ [SetToken a, CallGetMe] @ tl"
    "filter is_cookie_write tl = []"
    using run_usable_events [OF assms(1) assms(2) u] by blast
  have writes: "filter is_cookie_write
                  (new_events st (handleGoogleCallback ev nw credential st)) =
                persist_events ev a (refreshToken d)"
    using tl by (simp add: persist_events_cookie_writes)
  have axios: "axios_token (handleGoogleCallback ev nw credential st) = Some a"
    by (simp add: run after_getMe_axios)
  from empty rejected jar access refresh writes axios show ?thesis by blast
qed

theorem C2_profile_failure_keeps_tokens_witness:
  "''cred123'' \<noteq> []
   \<and> googleOAuthLogin net_profile_empty ''cred123'' = Inr (Some tokens_acc1_ref1)
   \<and> getMe net_profile_empty = Inr None
   \<and> auth (handleGoogleCallback sample_env net_profile_empty ''cred123'' fresh_state) =
       \<lparr>status = Failed, user = None, error = Some ''Failed to fetch user details''\<rparr>
   \<and> cookies (handleGoogleCallback sample_env net_profile_empty ''cred123'' fresh_state)
       ''access_token'' =
       Some \<lparr>cvalue = ''acc1'', path = ''/'', expires = 1, sameSite = Lax, secure = True\<rparr>
   \<and> cookies (handleGoogleCallback sample_env net_profile_empty ''cred123'' fresh_state)
       ''refresh_token'' =
       Some \<lparr>cvalue = ''ref1'', path = ''/'', expires = 7, sameSite = Lax, secure = True\<rparr>
   \<and> getMe net_profile_rejects = Inl (ApiError ''Network Error'')
   \<and> auth (handleGoogleCallback sample_env net_profile_rejects ''cred123'' fresh_state) =
       \<lparr>status = Failed, user = None, error = Some ''Network Error''\<rparr>"
proof -
  have ne: "''cred123'' \<noteq> []" by simp
  have x1: "googleOAuthLogin net_profile_empty ''cred123'' = Inr (Some tokens_acc1_ref1)"
    by (simp add: net_profile_empty_def)
  have x2: "googleOAuthLogin net_profile_rejects ''cred123'' = Inr (Some tokens_acc1_ref1)"
    by (simp add: net_profile_rejects_def)
  have d: "data tokens_acc1_ref1 =
             Some \<lparr>accessToken = Some ''acc1'', refreshToken = Some ''ref1''\<rparr>"
    by (simp add: tokens_acc1_ref1_def)
  have a: "accessToken \<lparr>accessToken = Some ''acc1'', refreshToken = Some ''ref1''\<rparr> =
             Some ''acc1''"
    by simp
  have ane: "''acc1'' \<noteq> []" by simp
  have g1: "getMe net_profile_empty = Inr None" by (simp add: net_profile_empty_def)
  have g2: "getMe net_profile_rejects = Inl (ApiError ''Network Error'')"
    by (simp add: net_profile_rejects_def)
  note t1 = C2_profile_failure_keeps_tokens [OF ne x1 d a ane,
      where ev = sample_env and st = fresh_state and e = "ApiError ''Network Error''"]
  note t2 = C2_profile_failure_keeps_tokens [OF ne x2 d a ane,
      where ev = sample_env and st = fresh_state and e = "ApiError ''Network Error''"]
  have r1: "auth (handleGoogleCallback sample_env net_profile_empty ''cred123'' fresh_state) =
       \<lparr>status = Failed, user = None, error = Some ''Failed to fetch user details''\<rparr>"
    using t1 g1 by (simp add: sample_env_def)
  have r2: "cookies (handleGoogleCallback sample_env net_profile_empty ''cred123'' fresh_state)
       ''access_token'' =
       Some \<lparr>cvalue = ''acc1'', path = ''/'', expires = 1, sameSite = Lax, secure = True\<rparr>"
    using t1 by (simp add: access_cookie_def refresh_cookie_def persist_jar_def sample_env_def)
  have r3: "cookies (handleGoogleCallback sample_env net_profile_empty ''cred123'' fresh_state)
       ''refresh_token'' =
       Some \<lparr>cvalue = ''ref1'', path = ''/'', expires = 7, sameSite = Lax, secure = True\<rparr>"
    using t1 by (simp add: access_cookie_def refresh_cookie_def persist_jar_def sample_env_def)
  have r4: "auth (handleGoogleCallback sample_env net_profile_rejects ''cred123'' fresh_state) =
       \<lparr>status = Failed, user = None, error = Some ''Network Error''\<rparr>"
    using t2 g2 by (simp add: sample_env_def)
  from ne x1 g1 r1 r2 r3 g2 r4 show ?thesis by simp
qed

text \<open>
  Claim C2 as stated fails: the exchange succeeds, both tokens are persisted, the profile
  call is rejected with "Network Error", and the attempt ends Failed with the reason
  "Network Error", not "Failed to fetch user details".
\<close>

theorem C2_counterexample:
  "googleOAuthLogin net_profile_rejects ''cred123'' = Inr (Some tokens_acc1_ref1)
   \<and> getMe net_profile_rejects = Inl (ApiError ''Network Error'')
   \<and> cookies (handleGoogleCallback sample_env net_profile_rejects ''cred123'' fresh_state)
       ''access_token'' =
       Some \<lparr>cvalue = ''acc1'', path = ''/'', expires = 1, sameSite = Lax, secure = True\<rparr>
   \<and> status (auth (handleGoogleCallback sample_env net_profile_rejects ''cred123'' fresh_state))
       = Failed
   \<and> error (auth (handleGoogleCallback sample_env net_profile_rejects ''cred123'' fresh_state))
       = Some ''Network Error''
   \<and> error (auth (handleGoogleCallback sample_env net_profile_rejects ''cred123'' fresh_state))
       \<noteq> Some (getErrorMessage sample_env (JsError ''Failed to fetch user details''))"
  by (simp add: handleGoogleCallback_def callback_begin_def after_exchange_def after_getMe_def
        usable_tokens_def effect_defs net_profile_rejects_def tokens_acc1_ref1_def
        sample_env_def fresh_state_def)

lemma persist_events_no_notice: "filter is_error_notice (persist_events ev a rt) = []"
  by (simp add: persist_events_def split: option.split)

text \<open>What the last piece shows and dispatches when it fails.\<close>

lemma after_getMe_failed:
  assumes "profile_result ev outcome = failed_with ev e"
    and "status (profile_result ev outcome) \<noteq> Authenticated"
  shows "\<exists>m. profile_result ev outcome = \<lparr>status = Failed, user = None, error = Some m\<rparr>
      \<and> filter is_error_notice (drop (length (events s)) (events (after_getMe ev outcome s)))
          = [MessageError m 5]
      \<and> (dispatched (drop (length (events s)) (events (after_getMe ev outcome s)))
            = [LoginFailure m]
         \<or> (\<exists>u. dispatched (drop (length (events s)) (events (after_getMe ev outcome s)))
                 = [LoginSuccess u, LoginFailure m]))"
proof (cases outcome)
  case (Inl x)
  then show ?thesis
    by (simp add: profile_result_def failed_with_def after_getMe_failure on_error_state)
next
  case (Inr profile)
  show ?thesis
  proof (cases profile)
    case None
    with Inr show ?thesis
      by (simp add: profile_result_def failed_with_def after_getMe_failure on_error_state)
  next
    case (Some d)
    obtain tl where tl: "events (after_getMe ev (Inr (Some d)) s) = events s @ tl"
      "dispatched tl =
            LoginSuccess (profile_of d) #
              (case props_throw ev of
                 None \<Rightarrow> []
               | Some x \<Rightarrow> [LoginFailure (getErrorMessage ev x)])"
      "filter is_error_notice tl =
            (case props_throw ev of
               None \<Rightarrow> []
             | Some x \<Rightarrow> [MessageError (getErrorMessage ev x) 5])"
      using after_getMe_success_events [of ev d s] by blast
    from assms(2) Inr Some obtain x where x: "props_throw ev = Some x"
      by (cases "props_throw ev") (simp_all add: profile_result_def)
    with Inr Some tl show ?thesis
      by (simp add: profile_result_def failed_with_def)
  qed
qed

text \<open>
  Every run of the callback either ends authenticated, or ends Failed with a message that
  it has dispatched last and shown exactly once.
\<close>

lemma run_outcome:
  "status (auth (handleGoogleCallback ev nw credential st)) = Authenticated
   \<or> (\<exists>m. auth (handleGoogleCallback ev nw credential st) =
              \<lparr>status = Failed, user = None, error = Some m\<rparr>
          \<and> (dispatched (new_events st (handleGoogleCallback ev nw credential st)) =
                [LoginStart, LoginFailure m]
             \<or> (\<exists>u. dispatched (new_events st (handleGoogleCallback ev nw credential st)) =
                     [LoginStart, LoginSuccess u, LoginFailure m]))
          \<and> filter is_error_notice
               (new_events st (handleGoogleCallback ev nw credential st)) =
               [MessageError m 5])"
proof (cases "credential = []")
  case True
  then show ?thesis
    by (simp add: handleGoogleCallback_def callback_begin_empty failed_with_def new_events_def)
next
  case False
  show ?thesis
  proof (cases "googleOAuthLogin nw credential")
    case (Inl e)
    show ?thesis
      by (simp add: run_exchange_rejected [OF False Inl] failed_with_def new_events_def)
  next
    case (Inr result)
    show ?thesis
    proof (cases "usable_tokens result")
      case None
      show ?thesis
        by (simp add: run_exchange_unusable [OF False Inr None] failed_with_def new_events_def)
    next
      case (Some tokens)
      obtain a rt where tokens: "tokens = (a, rt)" by (cases tokens)
      have u: "usable_tokens result = Some (a, rt)" using Some tokens by simp
      let ?s2 = "st\<lparr>auth := \<lparr>status = Authenticating, user = None, error = None\<rparr>,
                     cookies := persist_jar ev a rt (cookies st),
                     axios_token := Some a,
                     events := events st @ [Dispatch LoginStart, CallExchange credential]
                                 @ persist_events ev a rt @ [SetToken a, CallGetMe]\<rparr>"
      let ?pre = "[Dispatch LoginStart, CallExchange credential]
                    @ persist_events ev a rt @ [SetToken a, CallGetMe]"
      let ?post = "drop (length (events ?s2)) (events (after_getMe ev (getMe nw) ?s2))"
      note run = run_exchange_usable [OF False Inr u, of ev st]
      have ev2: "events ?s2 = events st @ ?pre" by simp
      have split: "new_events st (handleGoogleCallback ev nw credential st) = ?pre @ ?post"
        by (simp only: run new_events_after_getMe [OF ev2])
      have notices: "filter is_error_notice
                       (new_events st (handleGoogleCallback ev nw credential st)) =
                     filter is_error_notice ?post"
        by (simp add: split persist_events_no_notice)
      have actions: "dispatched (new_events st (handleGoogleCallback ev nw credential st)) =
                     LoginStart # dispatched ?post"
        by (simp add: split dispatched_append persist_events_cookie_writes)
      have state: "auth (handleGoogleCallback ev nw credential st) =
                     profile_result ev (getMe nw)"
        by (simp only: run after_getMe_auth)
      show ?thesis
      proof (cases "status (profile_result ev (getMe nw)) = Authenticated")
        case True
        then show ?thesis by (simp only: state) simp
      next
        case False
        then obtain e where e: "profile_result ev (getMe nw) = failed_with ev e"
          by (auto simp add: profile_result_def split: sum.splits option.splits)
        from after_getMe_failed [OF e False, of ?s2]
        obtain m where m:
          "profile_result ev (getMe nw) = \<lparr>status = Failed, user = None, error = Some m\<rparr>"
          "filter is_error_notice ?post = [MessageError m 5]"
          "dispatched ?post = [LoginFailure m]
             \<or> (\<exists>u. dispatched ?post = [LoginSuccess u, LoginFailure m])"
          by blast
        have "auth (handleGoogleCallback ev nw credential st) =
                \<lparr>status = Failed, user = None, error = Some m\<rparr>"
          by (simp only: state m(1))
        moreover have "filter is_error_notice
                         (new_events st (handleGoogleCallback ev nw credential st)) =
                       [MessageError m 5]"
          by (simp only: notices m(2))
        moreover have "dispatched (new_events st (handleGoogleCallback ev nw credential st)) =
                [LoginStart, LoginFailure m]
             \<or> (\<exists>u. dispatched (new_events st (handleGoogleCallback ev nw credential st)) =
                     [LoginStart, LoginSuccess u, LoginFailure m])"
          using m(3) by (auto simp only: actions)
        ultimately show ?thesis by blast
      qed
    qed
  qed
qed

text \<open>
  Claim C6, as the code has it. Every run of the credential callback that does not end
  authenticated dispatches \<^verbatim>\<open>loginFailure\<close> with an error message last (right after
  \<^verbatim>\<open>loginStart\<close>, or after a \<^verbatim>\<open>loginSuccess\<close> when a prop threw in the success branch), so
  that it ends Failed with the message recorded in the auth state, and shows the user that
  same message exactly once.
  A failure to load the identity script is not recorded: the auth state stays what it
  was. It is shown to the user once, with the text of \<^verbatim>\<open>t("auth.googleLoadFailed")\<close> or
  the default text; only when that lookup itself throws is nothing shown.
\<close>

theorem C6_failures_recorded_and_notified:
  "(status (auth (handleGoogleCallback ev nw credential st)) \<noteq> Authenticated \<longrightarrow>
      (\<exists>m. auth (handleGoogleCallback ev nw credential st) =
              \<lparr>status = Failed, user = None, error = Some m\<rparr>
          \<and> (dispatched (new_events st (handleGoogleCallback ev nw credential st)) =
                [LoginStart, LoginFailure m]
             \<or> (\<exists>u. dispatched (new_events st (handleGoogleCallback ev nw credential st)) =
                     [LoginStart, LoginSuccess u, LoginFailure m]))
          \<and> filter is_error_notice
               (new_events st (handleGoogleCallback ev nw credential st)) =
               [MessageError m 5]))
   \<and> auth (loadEffect ev clientId isOpen (Rejected x) st) = auth st
   \<and> (validateGoogleClientId clientId \<and> isOpen \<longrightarrow>
        events (loadEffect ev clientId isOpen (Rejected x) st) =
          events st @
            (case translate ev ''auth.googleLoadFailed'' of
               Inl e \<Rightarrow> []
             | Inr text \<Rightarrow>
                 [MessageError
                    (if text = [] then ''Failed to load Google authentication'' else text) 5]))"
proof -
  have callback: "\<exists>m. auth (handleGoogleCallback ev nw credential st) =
              \<lparr>status = Failed, user = None, error = Some m\<rparr>
          \<and> (dispatched (new_events st (handleGoogleCallback ev nw credential st)) =
                [LoginStart, LoginFailure m]
             \<or> (\<exists>u. dispatched (new_events st (handleGoogleCallback ev nw credential st)) =
                     [LoginStart, LoginSuccess u, LoginFailure m]))
          \<and> filter is_error_notice
               (new_events st (handleGoogleCallback ev nw credential st)) =
               [MessageError m 5]"
    if "status (auth (handleGoogleCallback ev nw credential st)) \<noteq> Authenticated"
    using run_outcome [of ev nw credential st] that by blast
  have unrecorded: "auth (loadEffect ev clientId isOpen (Rejected x) st) = auth st"
    by (simp add: loadEffect_def initializeGoogleOAuth_def emit_def split: sum.split)
  have shown: "events (loadEffect ev clientId isOpen (Rejected x) st) =
          events st @
            (case translate ev ''auth.googleLoadFailed'' of
               Inl e \<Rightarrow> []
             | Inr text \<Rightarrow>
                 [MessageError
                    (if text = [] then ''Failed to load Google authentication'' else text) 5])"
    if "validateGoogleClientId clientId \<and> isOpen"
    using that
    by (simp add: loadEffect_def initializeGoogleOAuth_def load_failed_text_def emit_def
          split: sum.split)
  from callback unrecorded shown show ?thesis by blast
qed

theorem C6_failures_recorded_and_notified_witness:
  "status (auth (handleGoogleCallback sample_env net_exchange_rejects ''cred123'' fresh_state))
     \<noteq> Authenticated
   \<and> (\<exists>m. auth (handleGoogleCallback sample_env net_exchange_rejects ''cred123'' fresh_state) =
            \<lparr>status = Failed, user = None, error = Some m\<rparr>
        \<and> filter is_error_notice
             (new_events fresh_state
                (handleGoogleCallback sample_env net_exchange_rejects ''cred123'' fresh_state)) =
             [MessageError m 5])
   \<and> status (auth (handleGoogleCallback throwing_env net_ok ''cred123'' fresh_state))
       \<noteq> Authenticated
   \<and> (\<exists>m. error (auth (handleGoogleCallback throwing_env net_ok ''cred123'' fresh_state)) =
            Some m
        \<and> filter is_error_notice
             (new_events fresh_state
                (handleGoogleCallback throwing_env net_ok ''cred123'' fresh_state)) =
             [MessageError m 5])
   \<and> validateGoogleClientId ''client-1.apps.googleusercontent.com''
   \<and> events (loadEffect sample_env ''client-1.apps.googleusercontent.com'' True
               (Rejected ''Failed to load Google OAuth script'') fresh_state) =
       [MessageError ''auth.googleLoadFailed'' 5]"
proof -
  have failed: "status (auth (handleGoogleCallback sample_env net_exchange_rejects ''cred123''
                  fresh_state)) \<noteq> Authenticated"
    by (simp add: handleGoogleCallback_def callback_begin_def after_exchange_def effect_defs
          net_exchange_rejects_def)
  have thrown: "status (auth (handleGoogleCallback throwing_env net_ok ''cred123''
                  fresh_state)) \<noteq> Authenticated"
    by (simp add: handleGoogleCallback_def callback_begin_def after_exchange_def
          after_getMe_def usable_tokens_def effect_defs net_ok_def tokens_acc1_ref1_def
          alice_def throwing_env_def)
  have valid: "validateGoogleClientId ''client-1.apps.googleusercontent.com''"
    by (simp add: validateGoogleClientId_def)
  note t1 = C6_failures_recorded_and_notified [where ev = sample_env
      and nw = net_exchange_rejects and credential = "''cred123''" and st = fresh_state
      and clientId = "''client-1.apps.googleusercontent.com''" and isOpen = True
      and x = "''Failed to load Google OAuth script''"]
  note t2 = C6_failures_recorded_and_notified [where ev = throwing_env
      and nw = net_ok and credential = "''cred123''" and st = fresh_state
      and clientId = "''client-1.apps.googleusercontent.com''" and isOpen = True
      and x = "''Failed to load Google OAuth script''"]
  have a: "\<exists>m. auth (handleGoogleCallback sample_env net_exchange_rejects ''cred123''
                     fresh_state) =
            \<lparr>status = Failed, user = None, error = Some m\<rparr>
        \<and> filter is_error_notice
             (new_events fresh_state
                (handleGoogleCallback sample_env net_exchange_rejects ''cred123'' fresh_state)) =
             [MessageError m 5]"
    using t1 failed by blast
  have "\<exists>m. auth (handleGoogleCallback throwing_env net_ok ''cred123'' fresh_state) =
            \<lparr>status = Failed, user = None, error = Some m\<rparr>
        \<and> filter is_error_notice
             (new_events fresh_state
                (handleGoogleCallback throwing_env net_ok ''cred123'' fresh_state)) =
             [MessageError m 5]"
    using t2 thrown by blast
  then have b: "\<exists>m. error (auth (handleGoogleCallback throwing_env net_ok ''cred123''
                         fresh_state)) = Some m
        \<and> filter is_error_notice
             (new_events fresh_state
                (handleGoogleCallback throwing_env net_ok ''cred123'' fresh_state)) =
             [MessageError m 5]"
    by auto
  have "events (loadEffect sample_env ''client-1.apps.googleusercontent.com'' True
               (Rejected ''Failed to load Google OAuth script'') fresh_state) =
          events fresh_state @
            (case translate sample_env ''auth.googleLoadFailed'' of
               Inl e \<Rightarrow> []
             | Inr text \<Rightarrow>
                 [MessageError
                    (if text = [] then ''Failed to load Google authentication'' else text) 5])"
    using t1 valid by blast
  then have c: "events (loadEffect sample_env ''client-1.apps.googleusercontent.com'' True
               (Rejected ''Failed to load Google OAuth script'') fresh_state) =
       [MessageError ''auth.googleLoadFailed'' 5]"
    by (simp add: sample_env_def fresh_state_def)
  from failed a thrown b valid c show ?thesis by blast
qed

text \<open>
  Claim C6 as stated fails for script-load failures: the script fetch fails, the loader's
  promise is rejected, the modal shows one error message, and the auth state is still the
  initial one, with status Idle and no error.
\<close>

theorem C6_counterexample:
  "promises (page_run empty_page [Call, ScriptError 0]) =
     [Rejected ''Failed to load Google OAuth script'']
   \<and> events (loadEffect sample_env ''client-1.apps.googleusercontent.com'' True
               (Rejected ''Failed to load Google OAuth script'') fresh_state) =
       [MessageError ''auth.googleLoadFailed'' 5]
   \<and> status (auth (loadEffect sample_env ''client-1.apps.googleusercontent.com'' True
                     (Rejected ''Failed to load Google OAuth script'') fresh_state)) = Idle
   \<and> error (auth (loadEffect sample_env ''client-1.apps.googleusercontent.com'' True
                    (Rejected ''Failed to load Google OAuth script'') fresh_state)) = None"
  by (simp add: page_run_def page_step_def loadGoogleOAuthScript_def empty_page_def
        run_handler_def settle_def failed_to_load_def loadEffect_def
        validateGoogleClientId_def initializeGoogleOAuth_def load_failed_text_def emit_def
        sample_env_def fresh_state_def initialAuth_def Let_def)

section \<open>Overlapping attempts: the last completion is what stays published\<close>

lemma run_snoc: "run ev w (sched @ [e]) = step ev (run ev w sched) e"
  by (simp add: run_def)

lemma step_getMe_settles:
  "suspended w i = Some AtGetMe \<Longrightarrow>
   auth (sys (step ev w (GetMeSettles i outcome))) = profile_result ev outcome"
  by (simp add: step_def after_getMe_auth)

lemma step_exchange_rejected:
  "suspended w i = Some AtExchange \<Longrightarrow>
   auth (sys (step ev w (ExchangeSettles i (Inl e)))) = failed_with ev e"
  by (simp add: step_def after_exchange_rejected on_error_state)

lemma step_exchange_unusable:
  "suspended w i = Some AtExchange \<Longrightarrow> usable_tokens result = None \<Longrightarrow>
   auth (sys (step ev w (ExchangeSettles i (Inr result)))) =
     failed_with ev (JsError ''Invalid response from server'')"
  by (simp add: step_def after_exchange_unusable on_error_state)

text \<open>The race of the two attempts, step by step.\<close>

lemma race_after_two_invocations:
  "suspended (run sample_env fresh_world (take 2 race_schedule)) 1 = Some AtExchange"
  "suspended (run sample_env fresh_world (take 2 race_schedule)) 2 = Some AtExchange"
  by (simp_all add: race_schedule_def run_def step_def callback_begin_def effect_defs
        fresh_world_def)

lemma race_after_second_exchange:
  "suspended (run sample_env fresh_world (take 3 race_schedule)) 1 = Some AtExchange"
  "suspended (run sample_env fresh_world (take 3 race_schedule)) 2 = Some AtGetMe"
  by (simp_all add: race_schedule_def run_def step_def callback_begin_def after_exchange_def
        usable_tokens_def tokens_acc1_ref1_def effect_defs fresh_world_def)

lemma race_after_second_attempt:
  "suspended (run sample_env fresh_world (take 4 race_schedule)) 1 = Some AtExchange"
  "suspended (run sample_env fresh_world (take 4 race_schedule)) 2 = None"
  "auth (sys (run sample_env fresh_world (take 4 race_schedule))) =
     \<lparr>status = Authenticated, user = Some (profile_of alice), error = None\<rparr>"
  by (simp_all add: race_schedule_def run_def step_def callback_begin_def after_exchange_def
        after_getMe_def usable_tokens_def tokens_acc1_ref1_def effect_defs fresh_world_def
        profile_of_def sample_env_def)

lemma race_schedule_split:
  "race_schedule = take 4 race_schedule
     @ [ExchangeSettles 1 (Inl (ApiError ''Request failed with status code 401''))]"
  "take 4 race_schedule = take 3 race_schedule @ [GetMeSettles 2 (Inr (Some alice))]"
  by (simp_all add: race_schedule_def)

text \<open>
  Claim C5, as the code has it. The callback carries no sequence number and checks
  nothing before it dispatches. Whenever a suspended attempt reaches its terminal piece,
  its result replaces the published auth state, whatever other attempts exist and
  whichever of them started last: after any schedule, the state is the terminal result of
  the attempt that completed last.
\<close>

theorem C5_last_completion_wins:
  "(suspended (run ev w sched) i = Some AtGetMe \<longrightarrow>
      auth (sys (run ev w (sched @ [GetMeSettles i outcome]))) = profile_result ev outcome)
   \<and> (suspended (run ev w sched) i = Some AtExchange \<longrightarrow>
        auth (sys (run ev w (sched @ [ExchangeSettles i (Inl e)]))) = failed_with ev e)
   \<and> (suspended (run ev w sched) i = Some AtExchange \<and> usable_tokens result = None \<longrightarrow>
        auth (sys (run ev w (sched @ [ExchangeSettles i (Inr result)]))) =
          failed_with ev (JsError ''Invalid response from server''))"
  by (simp add: run_snoc step_getMe_settles step_exchange_rejected step_exchange_unusable)

theorem C5_last_completion_wins_witness:
  "suspended (run sample_env fresh_world (take 3 race_schedule)) 2 = Some AtGetMe
   \<and> auth (sys (run sample_env fresh_world (take 4 race_schedule))) =
       \<lparr>status = Authenticated, user = Some (profile_of alice), error = None\<rparr>
   \<and> suspended (run sample_env fresh_world (take 4 race_schedule)) 1 = Some AtExchange
   \<and> auth (sys (run sample_env fresh_world race_schedule)) =
       \<lparr>status = Failed, user = None, error = Some ''Request failed with status code 401''\<rparr>
   \<and> usable_tokens (Some tokens_missing) = None
   \<and> auth (sys (run sample_env fresh_world
                  (take 4 race_schedule @ [ExchangeSettles 1 (Inr (Some tokens_missing))]))) =
       \<lparr>status = Failed, user = None, error = Some ''Invalid response from server''\<rparr>"
proof -
  have u: "usable_tokens (Some tokens_missing) = None"
    by (simp add: usable_tokens_def tokens_missing_def)
  note second = C5_last_completion_wins [where ev = sample_env and w = fresh_world
      and sched = "take 3 race_schedule" and i = 2 and outcome = "Inr (Some alice)"
      and e = "ApiError ''Request failed with status code 401''"
      and result = "Some tokens_missing"]
  note first = C5_last_completion_wins [where ev = sample_env and w = fresh_world
      and sched = "take 4 race_schedule" and i = 1 and outcome = "Inr (Some alice)"
      and e = "ApiError ''Request failed with status code 401''"
      and result = "Some tokens_missing"]
  have a0: "auth (sys (run sample_env fresh_world
                   (take 3 race_schedule @ [GetMeSettles 2 (Inr (Some alice))]))) =
              profile_result sample_env (Inr (Some alice))"
    using second race_after_second_exchange(2) by blast
  have a: "auth (sys (run sample_env fresh_world (take 4 race_schedule))) =
       \<lparr>status = Authenticated, user = Some (profile_of alice), error = None\<rparr>"
    by (subst race_schedule_split(2), subst a0)
      (simp add: profile_result_def props_throw_def sample_env_def)
  have b0: "auth (sys (run sample_env fresh_world
                   (take 4 race_schedule @
                     [ExchangeSettles 1 (Inl (ApiError ''Request failed with status code 401''))]))) =
              failed_with sample_env (ApiError ''Request failed with status code 401'')"
    using first race_after_second_attempt(1) by blast
  have b: "auth (sys (run sample_env fresh_world race_schedule)) =
       \<lparr>status = Failed, user = None, error = Some ''Request failed with status code 401''\<rparr>"
    by (subst race_schedule_split(1), subst b0) (simp add: failed_with_def sample_env_def)
  have c0: "auth (sys (run sample_env fresh_world
                  (take 4 race_schedule @ [ExchangeSettles 1 (Inr (Some tokens_missing))]))) =
              failed_with sample_env (JsError ''Invalid response from server'')"
    using first race_after_second_attempt(1) u by blast
  have c: "auth (sys (run sample_env fresh_world
                  (take 4 race_schedule @ [ExchangeSettles 1 (Inr (Some tokens_missing))]))) =
       \<lparr>status = Failed, user = None, error = Some ''Invalid response from server''\<rparr>"
    by (subst c0) (simp add: failed_with_def sample_env_def)
  from race_after_second_exchange(2) a race_after_second_attempt(1) b u c
  show ?thesis by blast
qed

text \<open>
  Claim C5 as stated fails. Attempt 1 starts, then attempt 2; attempt 2 is the most
  recently started one and completes first, publishing the authenticated user; the
  exchange of attempt 1 is rejected afterwards, and the stale failure of attempt 1
  overwrites the state that attempt 2 had published.
\<close>

theorem C5_counterexample:
  "race_schedule =
     [Invoke 1 ''credA'', Invoke 2 ''credB'',
      ExchangeSettles 2 (Inr (Some tokens_acc1_ref1)), GetMeSettles 2 (Inr (Some alice)),
      ExchangeSettles 1 (Inl (ApiError ''Request failed with status code 401''))]
   \<and> status (auth (sys (run sample_env fresh_world (take 4 race_schedule)))) = Authenticated
   \<and> suspended (run sample_env fresh_world (take 4 race_schedule)) 2 = None
   \<and> status (auth (sys (run sample_env fresh_world race_schedule))) = Failed
   \<and> user (auth (sys (run sample_env fresh_world race_schedule))) = None
   \<and> error (auth (sys (run sample_env fresh_world race_schedule))) =
       Some ''Request failed with status code 401''"
  by (simp add: race_schedule_def run_def step_def callback_begin_def after_exchange_def
        after_getMe_def usable_tokens_def tokens_acc1_ref1_def effect_defs fresh_world_def
        sample_env_def)

section \<open>The script loader\<close>

lemma page_run_Cons: "page_run pg (e # es) = page_run (page_step pg e) es"
  by (simp add: page_run_def)

lemma page_run_append: "page_run pg (es @ fs) = page_run (page_run pg es) fs"
  by (simp add: page_run_def)

lemma settle_frame:
  "scripts (settle v q pg) = scripts pg"
  "timers (settle v q pg) = timers pg"
  "length (promises (settle v q pg)) = length (promises pg)"
  by (simp_all add: settle_def)

lemma settle_other:
  "q \<noteq> p \<Longrightarrow> promises (settle v q pg) ! p = promises pg ! p"
  by (simp add: settle_def)

text \<open>A promise that waits on a failed script keeps waiting, whatever happens on the page.\<close>

lemma waits_on_failed_script_step:
  assumes "waits_on_failed_script p pg"
  shows "waits_on_failed_script p (page_step pg e)"
proof -
  from assms obtain s where s: "scripts pg = [s]" "src s = gsi_url" "fetch s = Errored"
    and p: "p < length (promises pg)" "promises pg ! p = Pending" "p \<notin> set (timers pg)"
    by (auto simp add: waits_on_failed_script_def split: list.splits)
  show ?thesis
  proof (cases e)
    case Call
    then show ?thesis
      using s p
      by (simp add: page_step_def loadGoogleOAuthScript_def waits_on_failed_script_def
            Let_def nth_append)
  next
    case (ScriptLoad k)
    then show ?thesis
      using s assms by (cases k) (simp_all add: page_step_def)
  next
    case (ScriptError k)
    then show ?thesis
      using s assms by (cases k) (simp_all add: page_step_def)
  next
    case (TimerFires q)
    show ?thesis
    proof (cases "q \<in> set (timers pg)")
      case True
      then have "q \<noteq> p" using p(3) by blast
      then show ?thesis
        using TimerFires True s p
        by (simp add: page_step_def waits_on_failed_script_def Let_def settle_frame
              settle_other)
    next
      case False
      then show ?thesis using TimerFires assms by (simp add: page_step_def)
    qed
  next
    case LibraryReady
    then show ?thesis
      using s p by (simp add: page_step_def waits_on_failed_script_def)
  qed
qed

lemma waits_on_failed_script_run:
  "waits_on_failed_script p pg \<Longrightarrow> waits_on_failed_script p (page_run pg es)"
proof (induction es arbitrary: pg)
  case Nil
  then show ?case by (simp add: page_run_def)
next
  case (Cons e es)
  then show ?case by (simp add: page_run_Cons waits_on_failed_script_step)
qed

lemma retry_after_failure:
  "page_run empty_page [Call, ScriptError 0, Call] =
     \<lparr>google = False,
      scripts = [\<lparr>src = gsi_url, async_attr = True, defer_attr = True, onload = Some 0,
                  onerror = Some 0, load_listeners = [1], error_listeners = [1],
                  fetch = Errored\<rparr>],
      promises = [Rejected ''Failed to load Google OAuth script'', Pending],
      timers = []\<rparr>"
  by (simp add: page_run_def page_step_def loadGoogleOAuthScript_def empty_page_def
        run_handler_def settle_def failed_to_load_def Let_def)

text \<open>
  Claim C7 on the code. The first call creates the script element; its fetch fails and
  the first promise is rejected. The element stays in the document. The second call
  finds it, creates no new element, and only adds listeners to an element whose events
  have already fired: whatever happens on the page afterwards, the second promise is
  still pending and the failed element is still the only script.
\<close>

theorem C7_retry_never_settles:
  "promises (page_run empty_page [Call, ScriptError 0]) =
     [Rejected ''Failed to load Google OAuth script'']
   \<and> length (scripts (page_run empty_page [Call, ScriptError 0])) = 1
   \<and> promises (page_run empty_page [Call, Call, ScriptError 0]) =
       [Rejected ''Failed to load Google OAuth script'',
        Rejected ''Failed to load Google OAuth script'']
   \<and> promises (page_run empty_page ([Call, ScriptError 0, Call] @ es)) ! 1 = Pending
   \<and> map fetch (scripts (page_run empty_page ([Call, ScriptError 0, Call] @ es))) = [Errored]"
proof -
  have first: "promises (page_run empty_page [Call, ScriptError 0]) =
                 [Rejected ''Failed to load Google OAuth script'']
             \<and> length (scripts (page_run empty_page [Call, ScriptError 0])) = 1"
    by (simp add: page_run_def page_step_def loadGoogleOAuthScript_def empty_page_def
          run_handler_def settle_def failed_to_load_def Let_def)
  have both: "promises (page_run empty_page [Call, Call, ScriptError 0]) =
       [Rejected ''Failed to load Google OAuth script'',
        Rejected ''Failed to load Google OAuth script'']"
    by (simp add: page_run_def page_step_def loadGoogleOAuthScript_def empty_page_def
          run_handler_def settle_def failed_to_load_def gsi_url_def Let_def)
  have "waits_on_failed_script 1 (page_run empty_page [Call, ScriptError 0, Call])"
    by (simp add: retry_after_failure waits_on_failed_script_def)
  then have "waits_on_failed_script 1
               (page_run (page_run empty_page [Call, ScriptError 0, Call]) es)"
    by (rule waits_on_failed_script_run)
  then have stuck: "waits_on_failed_script 1
                      (page_run empty_page ([Call, ScriptError 0, Call] @ es))"
    by (simp only: page_run_append)
  then have later: "promises (page_run empty_page ([Call, ScriptError 0, Call] @ es)) ! 1
                      = Pending
      \<and> map fetch (scripts (page_run empty_page ([Call, ScriptError 0, Call] @ es)))
          = [Errored]"
    by (auto simp add: waits_on_failed_script_def split: list.splits)
  from first both later show ?thesis by blast
qed

text \<open>
  The two outcomes of the loader that the code does deliver. A call made while the
  identity library is already present returns a resolved promise and changes nothing else
  on the page: no script element is added and no timer is set. A call made without the
  library and without a script element for it adds the element; when that element's load
  event fires, the call's promise waits for its timer, and when the timer runs out with
  the library still absent, the promise is rejected with
  "Google OAuth API not available after script load".
\<close>

lemma loader_present_or_fetching:
  "(google pg \<longrightarrow>
      loadGoogleOAuthScript pg = pg\<lparr>promises := promises pg @ [Resolved]\<rparr>)
   \<and> (\<not> google pg \<and> find (\<lambda>s. src s = gsi_url) (scripts pg) = None \<longrightarrow>
        length (scripts (page_run pg [Call])) = Suc (length (scripts pg))
      \<and> promises (page_run pg [Call, ScriptLoad (length (scripts pg))])
          ! length (promises pg) = Pending
      \<and> length (promises pg)
          \<in> set (timers (page_run pg [Call, ScriptLoad (length (scripts pg))]))
      \<and> promises (page_run pg [Call, ScriptLoad (length (scripts pg)),
                               TimerFires (length (promises pg))])
          ! length (promises pg) =
          Rejected ''Google OAuth API not available after script load'')"
  by (simp add: page_run_def page_step_def loadGoogleOAuthScript_def settle_def Let_def
        nth_append)

text \<open>A settled promise stays as it is, whatever happens on the page.\<close>

lemma settle_settled:
  "p < length (promises pg) \<Longrightarrow> promises pg ! p \<noteq> Pending \<Longrightarrow>
   promises (settle v q pg) ! p = promises pg ! p"
  by (cases "q = p") (simp_all add: settle_def)

lemma foldr_settle_frame:
  "scripts (foldr (settle v) qs pg) = scripts pg"
  "timers (foldr (settle v) qs pg) = timers pg"
  "length (promises (foldr (settle v) qs pg)) = length (promises pg)"
  by (induction qs) (simp_all add: settle_frame)

lemma foldr_settle_settled:
  "p < length (promises pg) \<Longrightarrow> promises pg ! p \<noteq> Pending \<Longrightarrow>
   promises (foldr (settle v) qs pg) ! p = promises pg ! p"
  by (induction qs) (simp_all add: settle_settled foldr_settle_frame)

lemma settled_step:
  assumes "p < length (promises pg)" and "promises pg ! p \<noteq> Pending"
  shows "p < length (promises (page_step pg e))
       \<and> promises (page_step pg e) ! p = promises pg ! p"
proof (cases e)
  case Call
  then show ?thesis
    using assms by (simp add: page_step_def loadGoogleOAuthScript_def Let_def nth_append)
next
  case (ScriptLoad k)
  then show ?thesis
    using assms
    by (simp add: page_step_def Let_def foldr_settle_frame foldr_settle_settled
          split: option.split)
next
  case (ScriptError k)
  then show ?thesis
    using assms
    by (simp add: page_step_def Let_def run_handler_def foldr_settle_frame
          foldr_settle_settled settle_frame settle_settled split: option.split)
next
  case (TimerFires q)
  then show ?thesis
    using assms by (simp add: page_step_def Let_def settle_frame settle_settled)
next
  case LibraryReady
  then show ?thesis using assms by (simp add: page_step_def)
qed

lemma settled_run:
  "p < length (promises pg) \<Longrightarrow> promises pg ! p \<noteq> Pending \<Longrightarrow>
   promises (page_run pg es) ! p = promises pg ! p"
proof (induction es arbitrary: pg)
  case Nil
  then show ?case by (simp add: page_run_def)
next
  case (Cons e es)
  from settled_step [OF Cons.prems, of e]
  have inside: "p < length (promises (page_step pg e))"
    and same: "promises (page_step pg e) ! p = promises pg ! p"
    by simp_all
  from same Cons.prems have settled: "promises (page_step pg e) ! p \<noteq> Pending" by simp
  have "promises (page_run (page_step pg e) es) ! p = promises (page_step pg e) ! p"
    by (rule Cons.IH [OF inside settled])
  with same show ?case by (simp add: page_run_Cons)
qed

lemma two_calls_then_load:
  "page_run empty_page [Call, Call, ScriptLoad 0] =
     \<lparr>google = False,
      scripts = [\<lparr>src = gsi_url, async_attr = True, defer_attr = True, onload = Some 0,
                  onerror = Some 0, load_listeners = [1], error_listeners = [1],
                  fetch = Loaded\<rparr>],
      promises = [Pending, Resolved],
      timers = [0]\<rparr>"
  by (simp add: page_run_def page_step_def loadGoogleOAuthScript_def empty_page_def
        settle_def Let_def)

text \<open>
  Claim C8 on the code. Two calls are made while the library is absent: the first creates
  the script element, the second finds it in flight and only adds listeners to it
  (lines 52-56). When the element's load event fires, the second promise is resolved at
  once, with no settle delay and no test of the global API, although the library is not
  there; it stays resolved whatever happens afterwards. The first promise waits for its
  timer and is rejected with "Google OAuth API not available after script load": for the
  same load, one call rejects and the other resolves.
\<close>

theorem C8_attached_call_skips_api_test:
  "promises (page_run empty_page [Call, Call, ScriptLoad 0]) = [Pending, Resolved]
   \<and> google (page_run empty_page [Call, Call, ScriptLoad 0]) = False
   \<and> length (scripts (page_run empty_page [Call, Call, ScriptLoad 0])) = 1
   \<and> promises (page_run empty_page [Call, Call, ScriptLoad 0, TimerFires 0]) =
       [Rejected ''Google OAuth API not available after script load'', Resolved]
   \<and> google (page_run empty_page [Call, Call, ScriptLoad 0, TimerFires 0]) = False
   \<and> promises (page_run empty_page ([Call, Call, ScriptLoad 0] @ es)) ! 1 = Resolved"
proof -
  have at_load: "promises (page_run empty_page [Call, Call, ScriptLoad 0]) = [Pending, Resolved]
      \<and> google (page_run empty_page [Call, Call, ScriptLoad 0]) = False
      \<and> length (scripts (page_run empty_page [Call, Call, ScriptLoad 0])) = 1"
    by (simp add: two_calls_then_load)
  have at_timer: "promises (page_run empty_page [Call, Call, ScriptLoad 0, TimerFires 0]) =
       [Rejected ''Google OAuth API not available after script load'', Resolved]
      \<and> google (page_run empty_page [Call, Call, ScriptLoad 0, TimerFires 0]) = False"
    by (simp add: page_run_def page_step_def loadGoogleOAuthScript_def empty_page_def
          settle_def Let_def)
  have "promises (page_run (page_run empty_page [Call, Call, ScriptLoad 0]) es) ! 1 =
          promises (page_run empty_page [Call, Call, ScriptLoad 0]) ! 1"
    by (rule settled_run) (simp_all add: two_calls_then_load)
  then have "promises (page_run empty_page ([Call, Call, ScriptLoad 0] @ es)) ! 1 =
          promises (page_run empty_page [Call, Call, ScriptLoad 0]) ! 1"
    by (simp only: page_run_append)
  also have "\<dots> = Resolved" by (simp add: two_calls_then_load)
  finally have later: "promises (page_run empty_page ([Call, Call, ScriptLoad 0] @ es)) ! 1
                      = Resolved" .
  from at_load at_timer later show ?thesis by blast
qed

end
